theory Spec2Isabelle
  imports Main "HOL-Library.Sublist"
begin

section \<open>Values, exceptions and the Python operations used by \<open>app/main.py\<close>\<close>

text \<open>
  The webhook receives whatever \<open>req.json()\<close> parsed, so an update is a JSON value and
  not a typed record. An object keeps its members as an association list (looked up with
  \<open>map_of\<close>). Numbers are the integers; a number with a fraction or an exponent is not
  modelled. A Python \<open>str\<close> is carried as the bytes of its UTF-8 encoding, so the glyphs
  of the source (check mark, gear, ...) are byte sequences below.
\<close>

datatype json =
    JNull
  | JBool bool
  | JInt int
  | JStr string
  | JArr "json list"
  | JObj "(string \<times> json) list"

datatype error = KeyError | TypeError | AttributeError | IndexError | TransportError

fun truthy :: "json \<Rightarrow> bool" where
  "truthy JNull = False"
| "truthy (JBool b) = b"
| "truthy (JInt n) = (n \<noteq> 0)"
| "truthy (JStr s) = (s \<noteq> [])"
| "truthy (JArr xs) = (xs \<noteq> [])"
| "truthy (JObj kvs) = (kvs \<noteq> [])"

text \<open>\<open>k in x\<close>: key membership for a dict, element membership for a list, substring
  test for a str, \<open>TypeError\<close> for anything that is not iterable.\<close>

fun contains :: "string \<Rightarrow> json \<Rightarrow> error + bool" where
  "contains k (JObj kvs) = Inr (map_of kvs k \<noteq> None)"
| "contains k (JArr xs) = Inr (JStr k \<in> set xs)"
| "contains k (JStr s) = Inr (sublist k s)"
| "contains k _ = Inl TypeError"

text \<open>\<open>x[k]\<close> with a str key: \<open>KeyError\<close> on a dict without the key, \<open>TypeError\<close> on
  every other JSON value (None, bool and int are not subscriptable; str and list want
  integer indices).\<close>

fun getitem :: "json \<Rightarrow> string \<Rightarrow> error + json" where
  "getitem (JObj kvs) k = (case map_of kvs k of None \<Rightarrow> Inl KeyError | Some v \<Rightarrow> Inr v)"
| "getitem _ k = Inl TypeError"

text \<open>\<open>x.get(k, d)\<close>: only a dict has the method.\<close>

fun get :: "json \<Rightarrow> string \<Rightarrow> json \<Rightarrow> error + json" where
  "get (JObj kvs) k d = Inr (case map_of kvs k of None \<Rightarrow> d | Some v \<Rightarrow> v)"
| "get _ k d = Inl AttributeError"

text \<open>\<open>x.startswith(p)\<close>: only a str has the method.\<close>

fun startswith :: "json \<Rightarrow> string \<Rightarrow> error + bool" where
  "startswith (JStr s) p = Inr (prefix p s)"
| "startswith _ p = Inl AttributeError"

text \<open>\<open>s.split(c)\<close> for a one-character separator, and \<open>xs[1]\<close>.\<close>

fun split :: "char \<Rightarrow> string \<Rightarrow> string list" where
  "split c [] = [[]]"
| "split c (x # xs) =
     (if x = c then [] # split c xs
      else (case split c xs of [] \<Rightarrow> [[x]] | y # ys \<Rightarrow> (x # y) # ys))"

definition second :: "'a list \<Rightarrow> error + 'a" where
  "second xs = (if 1 < length xs then Inr (xs ! 1) else Inl IndexError)"

text \<open>
  \<open>str.strip()\<close> removes, at both ends, every character Python counts as white space:
  U+0009 to U+000D, U+001C to U+0020, U+0085, U+00A0, U+1680, U+2000 to U+200A, U+2028,
  U+2029, U+202F, U+205F and U+3000, listed here in UTF-8. In well-formed UTF-8 a
  character's bytes occur only as that character, so matching whole encodings at either
  end of the byte string removes the same characters.
\<close>

definition whitespace :: "string list" where
  "whitespace =
     [[CHR 0x09], [CHR 0x0A], [CHR 0x0B], [CHR 0x0C], [CHR 0x0D],
      [CHR 0x1C], [CHR 0x1D], [CHR 0x1E], [CHR 0x1F], [CHR 0x20],
      [CHR 0xC2, CHR 0x85], [CHR 0xC2, CHR 0xA0],
      [CHR 0xE1, CHR 0x9A, CHR 0x80],
      [CHR 0xE2, CHR 0x80, CHR 0x80], [CHR 0xE2, CHR 0x80, CHR 0x81],
      [CHR 0xE2, CHR 0x80, CHR 0x82], [CHR 0xE2, CHR 0x80, CHR 0x83],
      [CHR 0xE2, CHR 0x80, CHR 0x84], [CHR 0xE2, CHR 0x80, CHR 0x85],
      [CHR 0xE2, CHR 0x80, CHR 0x86], [CHR 0xE2, CHR 0x80, CHR 0x87],
      [CHR 0xE2, CHR 0x80, CHR 0x88], [CHR 0xE2, CHR 0x80, CHR 0x89],
      [CHR 0xE2, CHR 0x80, CHR 0x8A],
      [CHR 0xE2, CHR 0x80, CHR 0xA8], [CHR 0xE2, CHR 0x80, CHR 0xA9],
      [CHR 0xE2, CHR 0x80, CHR 0xAF], [CHR 0xE2, CHR 0x81, CHR 0x9F],
      [CHR 0xE3, CHR 0x80, CHR 0x80]]"

text \<open>The white-space characters the string starts with, as encoded, if any.\<close>

definition leading_space :: "string list \<Rightarrow> string \<Rightarrow> string list" where
  "leading_space ws s = filter (\<lambda>sp. sp \<noteq> [] \<and> prefix sp s) ws"

function lstrip :: "string list \<Rightarrow> string \<Rightarrow> string" where
  "lstrip ws s =
     (case leading_space ws s of [] \<Rightarrow> s | sp # _ \<Rightarrow> lstrip ws (drop (length sp) s))"
  by pat_completeness auto
termination
proof (relation "measure (\<lambda>(ws, s). length s)")
  show "wf (measure (\<lambda>(ws, s). length s))" by simp
next
  fix ws :: "string list" and s sp :: string and rest :: "string list"
  assume "leading_space ws s = sp # rest"
  then have "sp \<in> set (leading_space ws s)" by simp
  then have "sp \<noteq> []" and "prefix sp s"
    by (simp_all add: leading_space_def)
  then have "s \<noteq> []" by auto
  with \<open>sp \<noteq> []\<close> show "((ws, drop (length sp) s), (ws, s)) \<in> measure (\<lambda>(ws, s). length s)"
    by simp
qed

definition rstrip :: "string \<Rightarrow> string" where
  "rstrip s = rev (lstrip (map rev whitespace) (rev s))"

definition strip :: "string \<Rightarrow> string" where
  "strip s = rstrip (lstrip whitespace s)"

text \<open>
  \<open>str.lower()\<close> and \<open>str.title()\<close> on the ASCII letters; every other byte is kept. For
  \<open>lower\<close> this decides the comparisons of the webhook as Python does: its result is only
  compared with \<open>/start\<close>, \<open>/reset\<close>, \<open>/mode\<close> and the Mode button's label, and no
  character outside ASCII has a lower-case form made of the characters of these four
  strings. \<open>title\<close> is applied to mode names, which the program only takes from \<open>modes\<close>.
\<close>

definition lower_char :: "char \<Rightarrow> char" where
  "lower_char c =
     (case map_of (zip ''ABCDEFGHIJKLMNOPQRSTUVWXYZ'' ''abcdefghijklmnopqrstuvwxyz'') c of
        None \<Rightarrow> c | Some l \<Rightarrow> l)"

definition upper_char :: "char \<Rightarrow> char" where
  "upper_char c =
     (case map_of (zip ''abcdefghijklmnopqrstuvwxyz'' ''ABCDEFGHIJKLMNOPQRSTUVWXYZ'') c of
        None \<Rightarrow> c | Some u \<Rightarrow> u)"

definition cased :: "char \<Rightarrow> bool" where
  "cased c \<longleftrightarrow> c \<in> set ''ABCDEFGHIJKLMNOPQRSTUVWXYZabcdefghijklmnopqrstuvwxyz''"

definition lower :: "string \<Rightarrow> string" where
  "lower s = map lower_char s"

text \<open>\<open>title_from prev s\<close>: \<open>prev\<close> tells whether the previous character was cased.\<close>

fun title_from :: "bool \<Rightarrow> string \<Rightarrow> string" where
  "title_from prev [] = []"
| "title_from prev (c # cs) =
     (if cased c then (if prev then lower_char c else upper_char c) # title_from True cs
      else c # title_from False cs)"

definition title :: "string \<Rightarrow> string" where
  "title s = title_from False s"

subsection \<open>Glyphs of the source, in UTF-8\<close>

definition check_mark :: string where
  "check_mark = [CHR 0xE2, CHR 0x9C, CHR 0x85]"

definition gear :: string where
  "gear = [CHR 0xE2, CHR 0x9A, CHR 0x99, CHR 0xEF, CHR 0xB8, CHR 0x8F]"

definition arrows :: string where
  "arrows = [CHR 0xF0, CHR 0x9F, CHR 0x94, CHR 0x84]"

definition smile :: string where
  "smile = [CHR 0xF0, CHR 0x9F, CHR 0x98, CHR 0x8A]"

definition wave :: string where
  "wave = [CHR 0xF0, CHR 0x9F, CHR 0x91, CHR 0x8B]"

definition apostrophe :: string where
  "apostrophe = [CHR 0xE2, CHR 0x80, CHR 0x99]"

definition bullet :: string where
  "bullet = [CHR 0xE2, CHR 0x80, CHR 0xA2]"

definition sparkles :: string where
  "sparkles = [CHR 0xE2, CHR 0x9C, CHR 0xA8]"

definition pointing :: string where
  "pointing = [CHR 0xF0, CHR 0x9F, CHR 0x91, CHR 0x89]"

definition speech :: string where
  "speech = [CHR 0xF0, CHR 0x9F, CHR 0x92, CHR 0xAC]"

definition newline :: string where
  "newline = [CHR 0x0A]"

section \<open>Memory and modes\<close>

text \<open>
  The two module-level dicts and the requests posted to the Bot API so far make up the
  state one update is handled in. A dict key is hashed first: a list or a dict as key
  raises \<open>TypeError\<close>, and \<open>True\<close> and \<open>False\<close> are the keys \<open>1\<close> and \<open>0\<close>.
  \<open>posted\<close> records every attempted request, in order, whether or not it came back.
\<close>

datatype request = PostJson string json | PostParams string json

record world =
  conversations :: "json \<rightharpoonup> json list"
  user_modes :: "json \<rightharpoonup> string"
  posted :: "request list"

definition MAX_TURNS :: nat where
  "MAX_TURNS = 10"

definition modes :: "(string \<times> string) list" where
  "modes =
     [(''general'', ''You are a helpful, concise assistant for everyday questions.''),
      (''restaurant'', ''You are a restaurant assistant. Help users find restaurants, suggest dishes, and answer politely.''),
      (''fitness'', ''You are a friendly fitness coach. Give workout routines, diet tips, and motivational advice.''),
      (''realestate'', ''You are a professional real estate agent. Provide property suggestions, buying/selling advice, and market insights.'')]"

definition DEFAULT_MODE :: string where
  "DEFAULT_MODE = ''general''"

text \<open>The world at import time: \<open>conversations = {}\<close>, \<open>user_modes = {}\<close>, nothing posted.\<close>

definition startup :: world where
  "startup = \<lparr>conversations = Map.empty, user_modes = Map.empty, posted = []\<rparr>"

subsection \<open>Statements that change the world or raise\<close>

type_synonym 'a action = "world \<Rightarrow> (error + 'a) \<times> world"

definition returns :: "'a \<Rightarrow> 'a action" where
  "returns x w = (Inr x, w)"

text \<open>An expression without effect on the world, which may raise.\<close>

definition expr :: "error + 'a \<Rightarrow> 'a action" where
  "expr r w = (r, w)"

text \<open>\<open>bind m f\<close>: run \<open>m\<close>; an exception ends the handler with the world as it is then,
  a value goes on to \<open>f\<close>.\<close>

definition bind :: "'a action \<Rightarrow> ('a \<Rightarrow> 'b action) \<Rightarrow> 'b action" where
  "bind m f w = (case m w of (Inl e, w') \<Rightarrow> (Inl e, w') | (Inr x, w') \<Rightarrow> f x w')"

fun dict_key :: "json \<Rightarrow> error + json" where
  "dict_key (JArr xs) = Inl TypeError"
| "dict_key (JObj kvs) = Inl TypeError"
| "dict_key (JBool b) = Inr (JInt (if b then 1 else 0))"
| "dict_key k = Inr k"

definition entry :: "string \<Rightarrow> string \<Rightarrow> json" where
  "entry role content = JObj [(''role'', JStr role), (''content'', JStr content)]"

text \<open>\<open>conversations.setdefault(chat_id, [])\<close>: a chat without history gets the empty
  one stored.\<close>

definition get_history :: "json \<Rightarrow> json list action" where
  "get_history chat_id =
     bind (expr (dict_key chat_id)) (\<lambda>k w.
       case conversations w k of
         Some hist \<Rightarrow> (Inr hist, w)
       | None \<Rightarrow> (Inr [], w\<lparr>conversations := (conversations w)(k \<mapsto> [])\<rparr>))"

text \<open>\<open>hist.append\<close> changes the stored list itself; the slice \<open>hist[-MAX_TURNS * 2:]\<close>
  is stored as a new list when the list has grown beyond \<open>MAX_TURNS * 2\<close>.\<close>

definition append_and_trim :: "json \<Rightarrow> string \<Rightarrow> string \<Rightarrow> unit action" where
  "append_and_trim chat_id role content =
     bind (get_history chat_id) (\<lambda>hist.
     bind (expr (dict_key chat_id)) (\<lambda>k w.
       let hist' = hist @ [entry role content];
           w' = w\<lparr>conversations := (conversations w)(k \<mapsto> hist')\<rparr>
       in if length hist' > MAX_TURNS * 2
          then (Inr (), w'\<lparr>conversations :=
                   (conversations w')(k \<mapsto> drop (length hist' - MAX_TURNS * 2) hist')\<rparr>)
          else (Inr (), w')))"

definition get_mode :: "json \<Rightarrow> string action" where
  "get_mode chat_id =
     bind (expr (dict_key chat_id)) (\<lambda>k w.
       (Inr (case user_modes w k of None \<Rightarrow> DEFAULT_MODE | Some m \<Rightarrow> m), w))"

text \<open>\<open>conversations.pop(chat_id, None)\<close> and \<open>user_modes[chat_id] = mode\<close>.\<close>

definition pop_conversation :: "json \<Rightarrow> unit action" where
  "pop_conversation chat_id =
     bind (expr (dict_key chat_id)) (\<lambda>k w.
       (Inr (), w\<lparr>conversations := (conversations w)(k := None)\<rparr>))"

definition set_user_mode :: "json \<Rightarrow> string \<Rightarrow> unit action" where
  "set_user_mode chat_id mode =
     bind (expr (dict_key chat_id)) (\<lambda>k w.
       (Inr (), w\<lparr>user_modes := (user_modes w)(k \<mapsto> mode)\<rparr>))"

section \<open>Helpers: the Bot API and the completion service\<close>

text \<open>
  What lies outside the program is a parameter of the handler. A request to the Bot API
  either comes back with an HTTP response, whose status the source never looks at, or
  makes the HTTP client raise (no connection, time-out). Within one update no request is
  posted twice, so a function of the request says as much as a sequence of outcomes. The
  completion call returns the list of choices, each with its \<open>message.content\<close> (which
  may be \<open>None\<close>), or raises. Paths are relative to \<open>TELEGRAM_API\<close>; the model name
  \<open>gpt-4o-mini\<close> is fixed. The \<open>print\<close> calls are left out.
\<close>

datatype outcome = Response nat | ConnectionFailed

datatype completion = Choices "string option list" | OpenAIError

record env =
  telegram :: "request \<Rightarrow> outcome"
  openai :: "json list \<Rightarrow> completion"

definition post :: "env \<Rightarrow> request \<Rightarrow> unit action" where
  "post e r w =
     (case telegram e r of
        Response status \<Rightarrow> (Inr (), w\<lparr>posted := posted w @ [r]\<rparr>)
      | ConnectionFailed \<Rightarrow> (Inl TransportError, w\<lparr>posted := posted w @ [r]\<rparr>))"

text \<open>Each helper builds its payload and posts it; the request it posts is named after
  the Bot API method.\<close>

definition answerCallbackQuery :: "json \<Rightarrow> string option \<Rightarrow> request" where
  "answerCallbackQuery callback_query_id text =
     PostJson ''/answerCallbackQuery''
       (JObj ((''callback_query_id'', callback_query_id) #
              (case text of
                 None \<Rightarrow> []
               | Some t \<Rightarrow> if t \<noteq> [] then [(''text'', JStr t)] else [])))"

definition answer_callback_query :: "env \<Rightarrow> json \<Rightarrow> string option \<Rightarrow> unit action" where
  "answer_callback_query e callback_query_id text =
     post e (answerCallbackQuery callback_query_id text)"

definition sendChatAction :: "json \<Rightarrow> request" where
  "sendChatAction chat_id =
     PostParams ''/sendChatAction''
       (JObj [(''chat_id'', chat_id), (''action'', JStr ''typing'')])"

definition send_typing :: "env \<Rightarrow> json \<Rightarrow> unit action" where
  "send_typing e chat_id = post e (sendChatAction chat_id)"

definition sendMessage :: "json \<Rightarrow> string \<Rightarrow> json option \<Rightarrow> request" where
  "sendMessage chat_id text reply_markup =
     PostJson ''/sendMessage''
       (JObj ([(''chat_id'', chat_id), (''text'', JStr text), (''parse_mode'', JStr ''Markdown'')] @
              (case reply_markup of
                 None \<Rightarrow> []
               | Some markup \<Rightarrow> if truthy markup then [(''reply_markup'', markup)] else [])))"

definition send_message :: "env \<Rightarrow> json \<Rightarrow> string \<Rightarrow> json option \<Rightarrow> unit action" where
  "send_message e chat_id text reply_markup = post e (sendMessage chat_id text reply_markup)"

definition main_keyboard :: json where
  "main_keyboard =
     JObj [(''keyboard'',
              JArr [JArr [JObj [(''text'', JStr (gear @ '' Mode''))],
                          JObj [(''text'', JStr (arrows @ '' Reset''))]]]),
           (''resize_keyboard'', JBool True),
           (''one_time_keyboard'', JBool False)]"

text \<open>The inline keyboard both branches build: one row per key of \<open>modes\<close>, in order.\<close>

definition mode_buttons :: "string \<Rightarrow> json list" where
  "mode_buttons current =
     map (\<lambda>name.
           JArr [JObj [(''text'', JStr ((if name = current then check_mark @ '' '' else []) @ title name)),
                       (''callback_data'', JStr (''mode:'' @ name))]])
         (map fst modes)"

definition inline_keyboard :: "string \<Rightarrow> json" where
  "inline_keyboard current = JObj [(''inline_keyboard'', JArr (mode_buttons current))]"

section \<open>Webhook\<close>

definition ok :: json where
  "ok = JObj [(''ok'', JBool True)]"

definition greeting :: string where
  "greeting =
     wave @ '' Hi! I'' @ apostrophe @ ''m your AI assistant.'' @ newline @
     bullet @ '' Use /reset to clear memory'' @ newline @
     bullet @ '' Use /mode to change my role (restaurant, fitness, realestate)'' @ newline @
     ''Default mode: General '' @ check_mark"

definition apology :: string where
  "apology = ''Sorry, I ran into an issue.''"

text \<open>\<open>completion.choices[0].message.content or "..."\<close> inside \<open>try\<close>; \<open>except Exception\<close>
  also catches the \<open>IndexError\<close> of an empty list of choices.\<close>

fun bot_reply_of :: "completion \<Rightarrow> string" where
  "bot_reply_of OpenAIError = apology"
| "bot_reply_of (Choices []) = apology"
| "bot_reply_of (Choices (None # cs)) = ''...''"
| "bot_reply_of (Choices (Some content # cs)) = (if content \<noteq> [] then content else ''...'')"

text \<open>\<open>modes[name]\<close>.\<close>

definition modes_item :: "string \<Rightarrow> error + string" where
  "modes_item name = (case map_of modes name of None \<Rightarrow> Inl KeyError | Some p \<Rightarrow> Inr p)"

text \<open>The body of \<open>if callback_data.startswith("mode:")\<close>. The inline keyboard is built
  and bound to \<open>reply_markup\<close>; the message is sent with \<open>main_keyboard()\<close>.\<close>

definition mode_button :: "env \<Rightarrow> json \<Rightarrow> json \<Rightarrow> json \<Rightarrow> json action" where
  "mode_button e chat_id callback_data cq_id =
     bind (expr (case callback_data of
                   JStr s \<Rightarrow> second (split CHR '':'' s)
                 | _ \<Rightarrow> Inl AttributeError)) (\<lambda>mode_choice.
     if map_of modes mode_choice \<noteq> None then
       bind (set_user_mode chat_id mode_choice) (\<lambda>_.
       bind (pop_conversation chat_id) (\<lambda>_.
       let reply_markup = inline_keyboard mode_choice in
       bind (answer_callback_query e cq_id (Some (''Mode set to '' @ mode_choice))) (\<lambda>_.
       bind (send_message e chat_id
               (check_mark @ '' Mode switched to *'' @ title mode_choice @ ''*'')
               (Some main_keyboard)) (\<lambda>_.
       returns ok))))
     else returns ok)"

text \<open>The commands and the conversational turn, for a message whose text is a str.\<close>

definition text_message :: "env \<Rightarrow> json \<Rightarrow> string \<Rightarrow> json action" where
  "text_message e chat_id text =
     (if prefix ''/start'' (lower (strip text)) then
        bind (pop_conversation chat_id) (\<lambda>_.
        bind (set_user_mode chat_id DEFAULT_MODE) (\<lambda>_.
        bind (send_message e chat_id greeting (Some main_keyboard)) (\<lambda>_.
        returns ok)))
      else if prefix ''/reset'' (lower (strip text)) then
        bind (pop_conversation chat_id) (\<lambda>_.
        bind (send_message e chat_id (''Memory cleared. Fresh start! '' @ sparkles)
                (Some main_keyboard)) (\<lambda>_.
        returns ok))
      else if lower (strip text) \<in> set [''/mode'', gear @ '' mode''] then
        bind (get_mode chat_id) (\<lambda>current.
        bind (send_message e chat_id (pointing @ '' Choose a mode:'')
                (Some (inline_keyboard current))) (\<lambda>_.
        returns ok))
      else
        bind (append_and_trim chat_id ''user'' text) (\<lambda>_.
        bind (get_mode chat_id) (\<lambda>mode.
        bind (expr (modes_item DEFAULT_MODE)) (\<lambda>default_prompt.
        let system_prompt = (case map_of modes mode of None \<Rightarrow> default_prompt | Some p \<Rightarrow> p) in
        bind (get_history chat_id) (\<lambda>hist.
        let messages = entry ''system'' system_prompt # hist;
            bot_reply = bot_reply_of (openai e messages) in
        bind (append_and_trim chat_id ''assistant'' bot_reply) (\<lambda>_.
        bind (send_message e chat_id
                (speech @ '' *['' @ title mode @ '' Mode]*'' @ newline @ newline @ bot_reply)
                (Some main_keyboard)) (\<lambda>_.
        returns ok)))))))"

text \<open>\<open># Handle normal messages\<close>, up to the test for text.\<close>

definition normal_message :: "env \<Rightarrow> json \<Rightarrow> json action" where
  "normal_message e update =
     bind (expr (get update ''message'' JNull)) (\<lambda>message.
     if \<not> truthy message then returns ok
     else
       bind (expr (get message ''chat'' (JObj []))) (\<lambda>chat.
       bind (expr (get chat ''id'' JNull)) (\<lambda>chat_id.
       bind (expr (get message ''text'' JNull)) (\<lambda>text.
       if chat_id = JNull then returns ok
       else
         bind (send_typing e chat_id) (\<lambda>_.
         case text of
           JStr t \<Rightarrow> text_message e chat_id t
         | _ \<Rightarrow>
             bind (send_message e chat_id (''I can only read text messages for now '' @ smile)
                     None) (\<lambda>_.
             returns ok))))))"

text \<open>\<open># Handle callback_query (button press)\<close>; a callback whose data does not start
  with \<open>mode:\<close> goes on to the message handling.\<close>

definition webhook :: "env \<Rightarrow> json \<Rightarrow> json action" where
  "webhook e update =
     bind (expr (contains ''callback_query'' update)) (\<lambda>has_callback_query.
     if has_callback_query then
       bind (expr (getitem update ''callback_query'')) (\<lambda>cq.
       bind (expr (getitem cq ''message'')) (\<lambda>cq_message.
       bind (expr (getitem cq_message ''chat'')) (\<lambda>cq_chat.
       bind (expr (getitem cq_chat ''id'')) (\<lambda>chat_id.
       bind (expr (getitem cq ''data'')) (\<lambda>callback_data.
       bind (expr (getitem cq ''id'')) (\<lambda>cq_id.
       bind (expr (startswith callback_data ''mode:'')) (\<lambda>is_mode.
       if is_mode then mode_button e chat_id callback_data cq_id
       else normal_message e update)))))))
     else normal_message e update)"

section \<open>Histories, sequences of appends and sample environments\<close>

text \<open>The history of a chat as \<open>get_history\<close> would return it, and the last \<open>n\<close>
  elements of a list, which is what the slice \<open>xs[-n:]\<close> keeps for \<open>n > 0\<close>.\<close>

definition history :: "world \<Rightarrow> json \<Rightarrow> json list" where
  "history w k = (case conversations w k of None \<Rightarrow> [] | Some hist \<Rightarrow> hist)"

definition most_recent :: "nat \<Rightarrow> 'a list \<Rightarrow> 'a list" where
  "most_recent n xs = drop (length xs - n) xs"

text \<open>What \<open>get_mode\<close> returns for a hashed chat id, and
  \<open>modes.get(mode, modes[DEFAULT_MODE])\<close>.\<close>

definition current_mode :: "world \<Rightarrow> json \<Rightarrow> string" where
  "current_mode w k = (case user_modes w k of None \<Rightarrow> DEFAULT_MODE | Some m \<Rightarrow> m)"

definition system_prompt :: "string \<Rightarrow> string" where
  "system_prompt mode =
     (case map_of modes mode of
        None \<Rightarrow> (case modes_item DEFAULT_MODE of Inl err \<Rightarrow> [] | Inr p \<Rightarrow> p)
      | Some p \<Rightarrow> p)"

text \<open>One \<open>append_and_trim\<close> call after the other; an exception ends the sequence.\<close>

fun append_each :: "(json \<times> string \<times> string) list \<Rightarrow> unit action" where
  "append_each [] = returns ()"
| "append_each ((chat_id, role, content) # rest) =
     bind (append_and_trim chat_id role content) (\<lambda>_. append_each rest)"

text \<open>User and assistant pairs: the entries they make, and the calls that append them.\<close>

definition dialogue :: "(string \<times> string) list \<Rightarrow> json list" where
  "dialogue pairs = concat (map (\<lambda>(u, a). [entry ''user'' u, entry ''assistant'' a]) pairs)"

definition turns :: "json \<Rightarrow> (string \<times> string) list \<Rightarrow> (json \<times> string \<times> string) list" where
  "turns chat_id pairs =
     concat (map (\<lambda>(u, a). [(chat_id, ''user'', u), (chat_id, ''assistant'', a)]) pairs)"

text \<open>Four surroundings of the handler: everything answers; the Bot API cannot be
  reached; the Bot API answers the typing indicator with an error status; the completion
  service raises.\<close>

definition online :: env where
  "online = \<lparr>telegram = (\<lambda>r. Response 200), openai = (\<lambda>messages. Choices [Some ''Hello!''])\<rparr>"

definition offline :: env where
  "offline = \<lparr>telegram = (\<lambda>r. ConnectionFailed), openai = (\<lambda>messages. Choices [Some ''Hello!''])\<rparr>"

definition typing_rejected :: env where
  "typing_rejected =
     \<lparr>telegram = (\<lambda>r. case r of PostParams path params \<Rightarrow> Response 500
                                 | PostJson path body \<Rightarrow> Response 200),
      openai = (\<lambda>messages. Choices [Some ''Hello!''])\<rparr>"

definition completion_down :: env where
  "completion_down = \<lparr>telegram = (\<lambda>r. Response 200), openai = (\<lambda>messages. OpenAIError)\<rparr>"

section \<open>Facts about the store\<close>

lemma append_and_trim_hashable:
  "dict_key chat_id = Inr k \<Longrightarrow>
   append_and_trim chat_id role content w =
     (Inr (), w\<lparr>conversations :=
        (conversations w)(k \<mapsto> most_recent (MAX_TURNS * 2) (history w k @ [entry role content]))\<rparr>)"
  by (simp add: append_and_trim_def get_history_def bind_def expr_def history_def
      most_recent_def Let_def split: option.split)

lemma append_and_trim_unhashable:
  "dict_key chat_id = Inl err \<Longrightarrow> append_and_trim chat_id role content w = (Inl err, w)"
  by (simp add: append_and_trim_def get_history_def bind_def expr_def)

lemma length_most_recent: "length (most_recent n xs) \<le> n"
  by (simp add: most_recent_def)

lemma most_recent_snoc:
  "most_recent n (most_recent n xs @ [x]) = most_recent n (xs @ [x])"
proof -
  have "Suc (length xs) - (length xs - n + n) + (length xs - n) = Suc (length xs) - n"
    by arith
  then show ?thesis by (simp add: most_recent_def)
qed

lemma append_and_trim_keeps_bound:
  assumes "\<forall>k hist. conversations w k = Some hist \<longrightarrow> length hist \<le> 2 * MAX_TURNS"
  shows "\<forall>k hist. conversations (snd (append_and_trim chat_id role content w)) k = Some hist
           \<longrightarrow> length hist \<le> 2 * MAX_TURNS"
proof (cases "dict_key chat_id")
  case (Inl err)
  with assms show ?thesis by (simp add: append_and_trim_unhashable)
next
  case (Inr key)
  have "length (most_recent (MAX_TURNS * 2) (history w key @ [entry role content])) \<le> 2 * MAX_TURNS"
    using length_most_recent [of "MAX_TURNS * 2"] by (simp add: mult.commute)
  with assms Inr show ?thesis
    by (simp add: append_and_trim_hashable)
qed

lemma append_each_keeps_bound:
  "\<forall>k hist. conversations w k = Some hist \<longrightarrow> length hist \<le> 2 * MAX_TURNS \<Longrightarrow>
   \<forall>k hist. conversations (snd (append_each ops w)) k = Some hist \<longrightarrow> length hist \<le> 2 * MAX_TURNS"
proof (induction ops arbitrary: w)
  case Nil
  then show ?case by (simp add: returns_def)
next
  case (Cons op ops)
  obtain chat_id role content where op: "op = (chat_id, role, content)"
    by (cases op) auto
  obtain r w' where step: "append_and_trim chat_id role content w = (r, w')"
    by (cases "append_and_trim chat_id role content w") auto
  have w': "\<forall>k hist. conversations w' k = Some hist \<longrightarrow> length hist \<le> 2 * MAX_TURNS"
    using append_and_trim_keeps_bound [OF Cons.prems, of chat_id role content] step by simp
  show ?case
  proof (cases r)
    case (Inl err)
    with step have "append_each (op # ops) w = (Inl err, w')"
      by (simp add: op bind_def)
    with w' show ?thesis by simp
  next
    case (Inr u)
    with step have "append_each (op # ops) w = append_each ops w'"
      by (simp add: op bind_def)
    with Cons.IH [OF w'] show ?thesis by simp
  qed
qed

section \<open>Facts about the handler\<close>

lemma snd_post_then_ok:
  "snd (bind (post e r) (\<lambda>_. returns ok) w) = w\<lparr>posted := posted w @ [r]\<rparr>"
  by (simp add: bind_def post_def returns_def split: outcome.split)

lemma fst_post_then_ok:
  "fst (bind (post e r) (\<lambda>_. returns ok) w) =
     (case telegram e r of Response status \<Rightarrow> Inr ok | ConnectionFailed \<Rightarrow> Inl TransportError)"
  by (simp add: bind_def post_def returns_def split: outcome.split)

lemma getitem_Inr:
  "getitem x key = Inr v \<Longrightarrow> \<exists>kvs. x = JObj kvs \<and> map_of kvs key = Some v"
  by (cases x) (auto split: option.splits)

lemma get_Inr:
  "get x key d = Inr v \<Longrightarrow> \<exists>kvs. x = JObj kvs \<and> v = (case map_of kvs key of None \<Rightarrow> d | Some v' \<Rightarrow> v')"
  by (cases x) auto

lemma webhook_callback:
  assumes "getitem update ''callback_query'' = Inr cq"
    and "getitem cq ''message'' = Inr cq_message"
    and "getitem cq_message ''chat'' = Inr cq_chat"
    and "getitem cq_chat ''id'' = Inr chat_id"
    and "getitem cq ''data'' = Inr (JStr d)"
    and "getitem cq ''id'' = Inr cq_id"
  shows "webhook e update w =
           (if prefix ''mode:'' d then mode_button e chat_id (JStr d) cq_id w
            else normal_message e update w)"
proof -
  from assms(1) obtain kvs where "update = JObj kvs" and "map_of kvs ''callback_query'' = Some cq"
    using getitem_Inr by blast
  then have "contains ''callback_query'' update = Inr True"
    by simp
  with assms show ?thesis
    by (simp add: webhook_def bind_def expr_def)
qed

lemma webhook_no_callback:
  "contains ''callback_query'' update = Inr False \<Longrightarrow> webhook e update w = normal_message e update w"
  by (simp add: webhook_def bind_def expr_def)

lemma normal_message_text:
  assumes "get update ''message'' JNull = Inr message"
    and "get message ''chat'' (JObj []) = Inr chat"
    and "get chat ''id'' JNull = Inr chat_id"
    and "chat_id \<noteq> JNull"
    and "get message ''text'' JNull = Inr (JStr text)"
  shows "normal_message e update w =
           bind (post e (sendChatAction chat_id)) (\<lambda>_. text_message e chat_id text) w"
proof -
  from assms(5) obtain kvs where "message = JObj kvs"
    and "JStr text = (case map_of kvs ''text'' of None \<Rightarrow> JNull | Some v \<Rightarrow> v)"
    using get_Inr by blast
  then have "kvs \<noteq> []" by (cases kvs) auto
  with \<open>message = JObj kvs\<close> have "truthy message" by simp
  with assms show ?thesis
    by (simp add: normal_message_def bind_def expr_def send_typing_def)
qed

lemma split_head: "\<exists>rest. split c s = takeWhile (\<lambda>x. x \<noteq> c) s # rest"
  by (induction s) auto

lemma second_split_mode:
  "second (split CHR '':'' (''mode:'' @ name)) = Inr (takeWhile (\<lambda>x. x \<noteq> CHR '':'') name)"
proof -
  obtain rest where rest: "split CHR '':'' name = takeWhile (\<lambda>x. x \<noteq> CHR '':'') name # rest"
    using split_head by blast
  then show ?thesis by (simp add: second_def)
qed

lemma registered_names:
  "map_of modes name \<noteq> None \<longleftrightarrow>
     name = ''general'' \<or> name = ''restaurant'' \<or> name = ''fitness'' \<or> name = ''realestate''"
  by (auto simp: modes_def)

lemma registered_no_colon:
  assumes "map_of modes name \<noteq> None"
  shows "takeWhile (\<lambda>x. x \<noteq> CHR '':'') name = name"
proof -
  from assms have "name = ''general'' \<or> name = ''restaurant'' \<or> name = ''fitness'' \<or> name = ''realestate''"
    by (simp only: registered_names)
  then show ?thesis by (elim disjE) simp_all
qed

lemma mode_button_registered:
  assumes "second (split CHR '':'' d) = Inr choice"
    and "map_of modes choice \<noteq> None"
    and "dict_key chat_id = Inr k"
  shows "mode_button e chat_id (JStr d) cq_id w =
     bind (post e (answerCallbackQuery cq_id (Some (''Mode set to '' @ choice)))) (\<lambda>_.
     bind (post e (sendMessage chat_id (check_mark @ '' Mode switched to *'' @ title choice @ ''*'')
                     (Some main_keyboard))) (\<lambda>_.
     returns ok))
     (w\<lparr>user_modes := (user_modes w)(k \<mapsto> choice),
        conversations := (conversations w)(k := None)\<rparr>)"
  using assms
  by (simp add: mode_button_def bind_def expr_def set_user_mode_def pop_conversation_def
      answer_callback_query_def send_message_def Let_def)

lemma mode_button_unregistered:
  assumes "second (split CHR '':'' d) = Inr choice"
    and "map_of modes choice = None"
  shows "mode_button e chat_id (JStr d) cq_id w = (Inr ok, w)"
  using assms by (simp add: mode_button_def bind_def expr_def returns_def)

lemma text_message_start:
  assumes "prefix ''/start'' (lower (strip text))"
    and "dict_key chat_id = Inr k"
  shows "text_message e chat_id text w =
     bind (post e (sendMessage chat_id greeting (Some main_keyboard))) (\<lambda>_. returns ok)
       (w\<lparr>conversations := (conversations w)(k := None),
          user_modes := (user_modes w)(k \<mapsto> DEFAULT_MODE)\<rparr>)"
  using assms
  by (simp add: text_message_def bind_def expr_def set_user_mode_def pop_conversation_def
      send_message_def)

lemma text_message_reset:
  assumes "\<not> prefix ''/start'' (lower (strip text))"
    and "prefix ''/reset'' (lower (strip text))"
    and "dict_key chat_id = Inr k"
  shows "text_message e chat_id text w =
     bind (post e (sendMessage chat_id (''Memory cleared. Fresh start! '' @ sparkles)
                     (Some main_keyboard))) (\<lambda>_. returns ok)
       (w\<lparr>conversations := (conversations w)(k := None)\<rparr>)"
  using assms
  by (simp add: text_message_def bind_def expr_def pop_conversation_def send_message_def)

lemma text_message_mode:
  assumes "\<not> prefix ''/start'' (lower (strip text))"
    and "\<not> prefix ''/reset'' (lower (strip text))"
    and "lower (strip text) = ''/mode'' \<or> lower (strip text) = gear @ '' mode''"
    and "dict_key chat_id = Inr k"
  shows "text_message e chat_id text w =
     bind (post e (sendMessage chat_id (pointing @ '' Choose a mode:'')
                     (Some (inline_keyboard (current_mode w k))))) (\<lambda>_. returns ok) w"
  using assms
  by (auto simp add: text_message_def bind_def expr_def get_mode_def send_message_def current_mode_def)

lemma modes_item_default:
  "modes_item DEFAULT_MODE = Inr ''You are a helpful, concise assistant for everyday questions.''"
  by (simp add: modes_item_def modes_def DEFAULT_MODE_def)

lemma text_message_turn:
  assumes "\<not> prefix ''/start'' (lower (strip text))"
    and "\<not> prefix ''/reset'' (lower (strip text))"
    and "lower (strip text) \<noteq> ''/mode''" and "lower (strip text) \<noteq> gear @ '' mode''"
    and "dict_key chat_id = Inr k"
    and "messages = entry ''system'' (system_prompt (current_mode w k)) #
           most_recent (MAX_TURNS * 2) (history w k @ [entry ''user'' text])"
  shows "text_message e chat_id text w =
     bind (post e (sendMessage chat_id
                     (speech @ '' *['' @ title (current_mode w k) @ '' Mode]*'' @ newline @ newline @
                      bot_reply_of (openai e messages))
                     (Some main_keyboard))) (\<lambda>_. returns ok)
       (w\<lparr>conversations := (conversations w)(k \<mapsto>
            most_recent (MAX_TURNS * 2)
              (history w k @ [entry ''user'' text, entry ''assistant'' (bot_reply_of (openai e messages))]))\<rparr>)"
proof -
  let ?w1 = "w\<lparr>conversations := (conversations w)(k \<mapsto>
               most_recent (MAX_TURNS * 2) (history w k @ [entry ''user'' text]))\<rparr>"
  have mode1: "get_mode chat_id ?w1 = (Inr (current_mode w k), ?w1)"
    using assms(5) by (simp add: get_mode_def bind_def expr_def current_mode_def)
  have hist1: "get_history chat_id ?w1 =
      (Inr (most_recent (MAX_TURNS * 2) (history w k @ [entry ''user'' text])), ?w1)"
    using assms(5) by (simp add: get_history_def bind_def expr_def)
  have h1: "history ?w1 k = most_recent (MAX_TURNS * 2) (history w k @ [entry ''user'' text])"
    by (simp add: history_def)
  have trim2: "most_recent (MAX_TURNS * 2) (history ?w1 k @ [entry ''assistant'' (bot_reply_of (openai e messages))])
      = most_recent (MAX_TURNS * 2)
          (history w k @ [entry ''user'' text, entry ''assistant'' (bot_reply_of (openai e messages))])"
    using most_recent_snoc [of "MAX_TURNS * 2" "history w k @ [entry ''user'' text]"
        "entry ''assistant'' (bot_reply_of (openai e messages))"]
    by (simp add: h1)
  have sp: "(case map_of modes (current_mode w k) of
              None \<Rightarrow> ''You are a helpful, concise assistant for everyday questions.''
            | Some p \<Rightarrow> p) = system_prompt (current_mode w k)"
    by (simp add: system_prompt_def modes_item_default split: option.split)
  show ?thesis
    using assms(1-4)
    by (simp add: text_message_def bind_def expr_def append_and_trim_hashable [OF assms(5)]
        mode1 hist1 trim2 [unfolded assms(6)] modes_item_default sp assms(6) send_message_def Let_def)
qed

lemma webhook_registered_button:
  assumes "getitem update ''callback_query'' = Inr cq"
    and "getitem cq ''message'' = Inr cq_message"
    and "getitem cq_message ''chat'' = Inr cq_chat"
    and "getitem cq_chat ''id'' = Inr chat_id"
    and "getitem cq ''data'' = Inr (JStr (''mode:'' @ name))"
    and "getitem cq ''id'' = Inr cq_id"
    and "map_of modes name \<noteq> None"
    and "dict_key chat_id = Inr k"
  shows "webhook e update w =
     bind (post e (answerCallbackQuery cq_id (Some (''Mode set to '' @ name)))) (\<lambda>_.
     bind (post e (sendMessage chat_id (check_mark @ '' Mode switched to *'' @ title name @ ''*'')
                     (Some main_keyboard))) (\<lambda>_.
     returns ok))
     (w\<lparr>user_modes := (user_modes w)(k \<mapsto> name),
        conversations := (conversations w)(k := None)\<rparr>)"
proof -
  have choice: "second (split CHR '':'' (''mode:'' @ name)) = Inr name"
    using second_split_mode [of name] registered_no_colon [OF assms(7)] by simp
  have "webhook e update w = mode_button e chat_id (JStr (''mode:'' @ name)) cq_id w"
    using webhook_callback [OF assms(1-6), of e w] by simp
  then show ?thesis
    by (simp only: mode_button_registered [OF choice assms(7) assms(8)])
qed

lemma snd_two_posts:
  "telegram e r1 = Response status \<Longrightarrow>
   snd (bind (post e r1) (\<lambda>_. bind (post e r2) (\<lambda>_. returns ok)) w) =
     w\<lparr>posted := posted w @ [r1, r2]\<rparr>"
  by (simp add: bind_def post_def returns_def split: outcome.split)

lemma two_posts_keep_state:
  "conversations (snd (bind (post e r1) (\<lambda>_. bind (post e r2) (\<lambda>_. returns ok)) w)) = conversations w
   \<and> user_modes (snd (bind (post e r1) (\<lambda>_. bind (post e r2) (\<lambda>_. returns ok)) w)) = user_modes w"
  by (simp add: bind_def post_def returns_def split: outcome.split)

lemma reset_not_start: "prefix ''/reset'' t \<Longrightarrow> \<not> prefix ''/start'' t"
  by (auto simp: prefix_def)

lemma webhook_text:
  assumes "contains ''callback_query'' update = Inr False"
    and "get update ''message'' JNull = Inr message"
    and "get message ''chat'' (JObj []) = Inr chat"
    and "get chat ''id'' JNull = Inr chat_id"
    and "chat_id \<noteq> JNull"
    and "get message ''text'' JNull = Inr (JStr text)"
  shows "webhook e update w =
     (case telegram e (sendChatAction chat_id) of
        Response status \<Rightarrow>
          text_message e chat_id text (w\<lparr>posted := posted w @ [sendChatAction chat_id]\<rparr>)
      | ConnectionFailed \<Rightarrow>
          (Inl TransportError, w\<lparr>posted := posted w @ [sendChatAction chat_id]\<rparr>))"
  by (simp add: webhook_no_callback [OF assms(1)] normal_message_text [OF assms(2-6)]
      bind_def post_def split: outcome.split)

lemma text_message_posts_respond:
  assumes "\<forall>r. telegram e r \<noteq> ConnectionFailed"
    and "dict_key chat_id = Inr k"
  shows "fst (text_message e chat_id text w) = Inr ok"
proof -
  have answered: "\<And>r w'. fst (bind (post e r) (\<lambda>_. returns ok) w') = Inr ok"
    using assms(1) by (simp add: fst_post_then_ok split: outcome.split)
  consider (start) "prefix ''/start'' (lower (strip text))"
    | (reset) "\<not> prefix ''/start'' (lower (strip text))" "prefix ''/reset'' (lower (strip text))"
    | (mode) "\<not> prefix ''/start'' (lower (strip text))" "\<not> prefix ''/reset'' (lower (strip text))"
        "lower (strip text) = ''/mode'' \<or> lower (strip text) = gear @ '' mode''"
    | (turn) "\<not> prefix ''/start'' (lower (strip text))" "\<not> prefix ''/reset'' (lower (strip text))"
        "lower (strip text) \<noteq> ''/mode''" "lower (strip text) \<noteq> gear @ '' mode''"
    by blast
  then show ?thesis
  proof cases
    case start
    then show ?thesis by (simp only: text_message_start [OF start assms(2)] answered)
  next
    case reset
    then show ?thesis by (simp only: text_message_reset [OF reset assms(2)] answered)
  next
    case mode
    then show ?thesis by (simp only: text_message_mode [OF mode assms(2)] answered)
  next
    case turn
    then show ?thesis by (simp only: text_message_turn [OF turn assms(2) refl] answered)
  qed
qed

lemma text_message_posted:
  assumes "dict_key chat_id = Inr k"
  shows "prefix (posted w) (posted (snd (text_message e chat_id text w)))"
proof -
  consider (start) "prefix ''/start'' (lower (strip text))"
    | (reset) "\<not> prefix ''/start'' (lower (strip text))" "prefix ''/reset'' (lower (strip text))"
    | (mode) "\<not> prefix ''/start'' (lower (strip text))" "\<not> prefix ''/reset'' (lower (strip text))"
        "lower (strip text) = ''/mode'' \<or> lower (strip text) = gear @ '' mode''"
    | (turn) "\<not> prefix ''/start'' (lower (strip text))" "\<not> prefix ''/reset'' (lower (strip text))"
        "lower (strip text) \<noteq> ''/mode''" "lower (strip text) \<noteq> gear @ '' mode''"
    by blast
  then show ?thesis
  proof cases
    case start
    then show ?thesis by (simp add: text_message_start [OF start assms] snd_post_then_ok)
  next
    case reset
    then show ?thesis by (simp add: text_message_reset [OF reset assms] snd_post_then_ok)
  next
    case mode
    then show ?thesis by (simp add: text_message_mode [OF mode assms] snd_post_then_ok)
  next
    case turn
    then show ?thesis by (simp add: text_message_turn [OF turn assms refl] snd_post_then_ok)
  qed
qed

lemma choose_not_reply:
  "sendMessage chat_id (pointing @ '' Choose a mode:'') markup \<noteq>
   sendMessage chat_id (speech @ rest) markup'"
  by (simp add: sendMessage_def pointing_def speech_def)

lemma text_message_same_replies:
  assumes "\<forall>path body. telegram e' (PostJson path body) = telegram e (PostJson path body)"
    and "openai e' = openai e"
  shows "text_message e' chat_id text w = text_message e chat_id text w"
proof -
  have "post e' (sendMessage c t m) = post e (sendMessage c t m)" for c t m
    using assms(1) by (intro ext) (simp add: post_def sendMessage_def)
  then show ?thesis
    by (simp add: text_message_def send_message_def assms(2))
qed

section \<open>Sequences of appends\<close>

lemma most_recent_append:
  "most_recent n (most_recent n xs @ ys) = most_recent n (xs @ ys)"
proof (induction ys rule: rev_induct)
  case Nil
  show ?case by (simp add: most_recent_def)
next
  case (snoc y ys)
  have "most_recent n (most_recent n xs @ ys @ [y]) =
        most_recent n (most_recent n (most_recent n xs @ ys) @ [y])"
    using most_recent_snoc [of n "most_recent n xs @ ys" y] by simp
  also have "\<dots> = most_recent n (most_recent n (xs @ ys) @ [y])"
    by (simp only: snoc.IH)
  also have "\<dots> = most_recent n (xs @ ys @ [y])"
    using most_recent_snoc [of n "xs @ ys" y] by simp
  finally show ?case .
qed

lemma append_each_one_chat:
  "dict_key chat_id = Inr k \<Longrightarrow>
   append_each (map (\<lambda>(role, content). (chat_id, role, content)) es) w =
     (Inr (), if es = [] then w else w\<lparr>conversations := (conversations w)(k \<mapsto>
        most_recent (MAX_TURNS * 2) (history w k @ map (\<lambda>(role, content). entry role content) es))\<rparr>)"
proof (induction es arbitrary: w)
  case Nil
  then show ?case by (simp add: returns_def)
next
  case (Cons e es)
  obtain role content where e: "e = (role, content)" by (cases e) auto
  let ?w1 = "w\<lparr>conversations := (conversations w)(k \<mapsto>
               most_recent (MAX_TURNS * 2) (history w k @ [entry role content]))\<rparr>"
  have h1: "history ?w1 k = most_recent (MAX_TURNS * 2) (history w k @ [entry role content])"
    by (simp add: history_def)
  have step: "append_each (map (\<lambda>(role, content). (chat_id, role, content)) (e # es)) w =
        append_each (map (\<lambda>(role, content). (chat_id, role, content)) es) ?w1"
    using Cons.prems by (simp add: e bind_def append_and_trim_hashable)
  show ?case
  proof (cases "es = []")
    case True
    then show ?thesis using step by (simp add: returns_def e)
  next
    case False
    have "most_recent (MAX_TURNS * 2) (history ?w1 k @ map (\<lambda>(role, content). entry role content) es)
          = most_recent (MAX_TURNS * 2) (history w k @ map (\<lambda>(role, content). entry role content) (e # es))"
      using most_recent_append [of "MAX_TURNS * 2" "history w k @ [entry role content]"
          "map (\<lambda>(role, content). entry role content) es"]
      by (simp add: h1 e)
    then show ?thesis using step Cons.IH [OF Cons.prems, of ?w1] False by (simp add: e)
  qed
qed


lemma turns_map:
  "turns chat_id pairs =
     map (\<lambda>(role, content). (chat_id, role, content))
       (concat (map (\<lambda>(u, a). [(''user'', u), (''assistant'', a)]) pairs))"
  by (induction pairs) (auto simp: turns_def)

lemma dialogue_map:
  "dialogue pairs =
     map (\<lambda>(role, content). entry role content)
       (concat (map (\<lambda>(u, a). [(''user'', u), (''assistant'', a)]) pairs))"
  by (induction pairs) (auto simp: dialogue_def)

lemma append_each_turns:
  assumes "dict_key chat_id = Inr k"
  shows "append_each (turns chat_id pairs) w =
     (Inr (), if pairs = [] then w else w\<lparr>conversations := (conversations w)(k \<mapsto>
        most_recent (MAX_TURNS * 2) (history w k @ dialogue pairs))\<rparr>)"
proof -
  have "concat (map (\<lambda>(u, a). [(''user'', u), (''assistant'', a)]) pairs) = [] \<longleftrightarrow> pairs = []"
    by (cases pairs) auto
  then show ?thesis
    using append_each_one_chat [OF assms,
        of "concat (map (\<lambda>(u, a). [(''user'', u), (''assistant'', a)]) pairs)" w]
    by (simp only: turns_map dialogue_map)
qed

lemma length_dialogue: "length (dialogue pairs) = 2 * length pairs"
  by (induction pairs) (auto simp: dialogue_def)

lemma drop_dialogue: "drop (2 * n) (dialogue pairs) = dialogue (drop n pairs)"
proof (induction pairs arbitrary: n)
  case Nil
  show ?case by (simp add: dialogue_def)
next
  case (Cons p pairs)
  show ?case
  proof (cases n)
    case 0
    then show ?thesis by simp
  next
    case (Suc m)
    obtain u a where "p = (u, a)" by (cases p) auto
    with Suc Cons.IH [of m] show ?thesis by (simp add: dialogue_def)
  qed
qed

section \<open>Trimming\<close>

text \<open>
  Claim C7. With \<open>MAX_TURNS = 10\<close>: for a chat whose history is empty, appending 25
  user and assistant pairs, one \<open>append_and_trim\<close> call per entry (50 calls), raises
  nothing and leaves as stored history exactly entries 31 to 50, which are the last 10
  pairs in their original order.
\<close>

theorem twenty_five_pairs_keep_last_ten:
  assumes "dict_key chat_id = Inr k"
    and "history w k = []"
    and "length pairs = 25"
  shows "append_each (turns chat_id pairs) w =
           (Inr (), w\<lparr>conversations := (conversations w)(k \<mapsto> drop 30 (dialogue pairs))\<rparr>)
         \<and> drop 30 (dialogue pairs) = dialogue (drop 15 pairs)
         \<and> length (dialogue pairs) = 50
         \<and> MAX_TURNS = 10"
proof -
  from assms(3) have nonempty: "pairs \<noteq> []" by auto
  have len: "length (dialogue pairs) = 50"
    using assms(3) by (simp add: length_dialogue)
  then have "most_recent (MAX_TURNS * 2) (history w k @ dialogue pairs) = drop 30 (dialogue pairs)"
    by (simp add: most_recent_def MAX_TURNS_def assms(2))
  with nonempty have "append_each (turns chat_id pairs) w =
      (Inr (), w\<lparr>conversations := (conversations w)(k \<mapsto> drop 30 (dialogue pairs))\<rparr>)"
    by (simp add: append_each_turns [OF assms(1)])
  moreover have "drop 30 (dialogue pairs) = dialogue (drop 15 pairs)"
    using drop_dialogue [of 15 pairs] by simp
  ultimately show ?thesis using len by (simp add: MAX_TURNS_def)
qed

theorem twenty_five_pairs_keep_last_ten_witness:
  "append_each
     (turns (JInt 7) (replicate 15 (''old question'', ''old answer'') @
                      replicate 10 (''new question'', ''new answer''))) startup =
     (Inr (), startup\<lparr>conversations :=
        (conversations startup)(JInt 7 \<mapsto> dialogue (replicate 10 (''new question'', ''new answer'')))\<rparr>)"
proof -
  have key: "dict_key (JInt 7) = Inr (JInt 7)" by simp
  have empty: "history startup (JInt 7) = []" by (simp add: history_def startup_def)
  have len: "length (replicate 15 (''old question'', ''old answer'') @
                     replicate 10 (''new question'', ''new answer'')) = 25" by simp
  note kept = twenty_five_pairs_keep_last_ten [OF key empty len]
  from kept have stored: "append_each
     (turns (JInt 7) (replicate 15 (''old question'', ''old answer'') @
                      replicate 10 (''new question'', ''new answer''))) startup =
     (Inr (), startup\<lparr>conversations := (conversations startup)(JInt 7 \<mapsto>
        drop 30 (dialogue (replicate 15 (''old question'', ''old answer'') @
                           replicate 10 (''new question'', ''new answer''))))\<rparr>)"
    by (rule conjunct1)
  from kept have "drop 30 (dialogue (replicate 15 (''old question'', ''old answer'') @
                           replicate 10 (''new question'', ''new answer''))) =
      dialogue (drop 15 (replicate 15 (''old question'', ''old answer'') @
                           replicate 10 (''new question'', ''new answer'')))"
    by blast
  then show ?thesis by (simp add: stored)
qed

text \<open>
  Claim C4. From a store in which no history is longer than \<open>2 * MAX_TURNS = 20\<close> (the
  empty store the process starts with is one), after each operation of any sequence of
  \<open>append_and_trim\<close> calls every chat's stored history has at most 20 entries. A single
  call stores the old history with the new entry at its end, cut down to its last 20
  entries: what is dropped is dropped from the front, oldest first.
\<close>

theorem history_length_bounded:
  assumes "\<forall>k hist. conversations w k = Some hist \<longrightarrow> length hist \<le> 2 * MAX_TURNS"
  shows "(\<forall>n k hist. conversations (snd (append_each (take n ops) w)) k = Some hist
            \<longrightarrow> length hist \<le> 2 * MAX_TURNS)
         \<and> (\<forall>chat_id k role content. dict_key chat_id = Inr k \<longrightarrow>
              conversations (snd (append_and_trim chat_id role content w)) k =
                Some (drop (length (history w k @ [entry role content]) - 2 * MAX_TURNS)
                        (history w k @ [entry role content])))
         \<and> 2 * MAX_TURNS = 20"
proof (intro conjI allI impI)
  fix n k hist
  assume "conversations (snd (append_each (take n ops) w)) k = Some hist"
  with append_each_keeps_bound [OF assms, of "take n ops"]
  show "length hist \<le> 2 * MAX_TURNS" by blast
next
  fix chat_id k role content
  assume "dict_key chat_id = Inr k"
  then show "conversations (snd (append_and_trim chat_id role content w)) k =
                Some (drop (length (history w k @ [entry role content]) - 2 * MAX_TURNS)
                        (history w k @ [entry role content]))"
    by (simp add: append_and_trim_hashable most_recent_def mult.commute)
next
  show "2 * MAX_TURNS = 20" by (simp add: MAX_TURNS_def)
qed

theorem history_length_bounded_witness:
  "conversations (snd (append_each (take 22 (turns (JInt 7) (replicate 11 (''ping'', ''pong''))))
      startup)) (JInt 7) = Some (dialogue (replicate 10 (''ping'', ''pong'')))
   \<and> length (dialogue (replicate 10 (''ping'', ''pong''))) \<le> 2 * MAX_TURNS
   \<and> conversations (snd (append_and_trim (JInt 7) ''user'' ''hello'' startup)) (JInt 7) =
       Some [entry ''user'' ''hello'']"
proof -
  have start: "\<forall>k hist. conversations startup k = Some hist \<longrightarrow> length hist \<le> 2 * MAX_TURNS"
    by (simp add: startup_def)
  note bounded = history_length_bounded [OF start, of "turns (JInt 7) (replicate 11 (''ping'', ''pong''))"]
  have key: "dict_key (JInt 7) = Inr (JInt 7)" by simp
  have "length (turns (JInt 7) (replicate 11 (''ping'', ''pong''))) = 22"
    by (simp add: turns_map length_concat comp_def sum_list_replicate)
  then have all: "take 22 (turns (JInt 7) (replicate 11 (''ping'', ''pong''))) =
      turns (JInt 7) (replicate 11 (''ping'', ''pong''))" by simp
  have "drop 2 (dialogue (replicate 11 (''ping'', ''pong''))) = dialogue (replicate 10 (''ping'', ''pong''))"
    using drop_dialogue [of 1 "replicate 11 (''ping'', ''pong'')"] by simp
  then have stored: "conversations (snd (append_each (take 22 (turns (JInt 7) (replicate 11 (''ping'', ''pong''))))
      startup)) (JInt 7) = Some (dialogue (replicate 10 (''ping'', ''pong'')))"
    by (simp add: all append_each_turns [OF key] most_recent_def length_dialogue MAX_TURNS_def
        history_def startup_def)
  from bounded stored have "length (dialogue (replicate 10 (''ping'', ''pong''))) \<le> 2 * MAX_TURNS"
    by blast
  moreover from bounded key
  have "conversations (snd (append_and_trim (JInt 7) ''user'' ''hello'' startup)) (JInt 7) =
       Some (drop (length (history startup (JInt 7) @ [entry ''user'' ''hello'']) - 2 * MAX_TURNS)
                        (history startup (JInt 7) @ [entry ''user'' ''hello'']))"
    by blast
  then have "conversations (snd (append_and_trim (JInt 7) ''user'' ''hello'' startup)) (JInt 7) =
       Some [entry ''user'' ''hello'']"
    by (simp add: history_def startup_def MAX_TURNS_def)
  ultimately show ?thesis using stored by simp
qed

section \<open>Button presses\<close>

text \<open>
  Claim C1 says that after a button press \<open>mode:<name>\<close> for a registered mode the
  confirmation message carries the re-rendered mode-selection inline keyboard, with the
  check mark on the new mode. The handler sets the mode, acknowledges the callback and
  sends the confirmation, but the keyboard attached to the confirmation is the persistent
  reply keyboard \<open>main_keyboard()\<close>: the inline keyboard it has just built under the
  comment "Rebuild inline keyboard with updated checkmark" is never passed on.
\<close>

theorem mode_switch_sends_main_keyboard:
  assumes "getitem update ''callback_query'' = Inr cq"
    and "getitem cq ''message'' = Inr cq_message"
    and "getitem cq_message ''chat'' = Inr cq_chat"
    and "getitem cq_chat ''id'' = Inr chat_id"
    and "getitem cq ''data'' = Inr (JStr (''mode:'' @ name))"
    and "getitem cq ''id'' = Inr cq_id"
    and "map_of modes name \<noteq> None"
    and "dict_key chat_id = Inr k"
    and "telegram e (answerCallbackQuery cq_id (Some (''Mode set to '' @ name))) = Response status"
  shows "user_modes (snd (webhook e update w)) k = Some name
         \<and> posted (snd (webhook e update w)) =
             posted w @
               [answerCallbackQuery cq_id (Some (''Mode set to '' @ name)),
                sendMessage chat_id (check_mark @ '' Mode switched to *'' @ title name @ ''*'')
                  (Some main_keyboard)]
         \<and> sendMessage chat_id (check_mark @ '' Mode switched to *'' @ title name @ ''*'')
                  (Some main_keyboard) \<noteq>
             sendMessage chat_id (check_mark @ '' Mode switched to *'' @ title name @ ''*'')
                  (Some (inline_keyboard name))"
proof -
  have "sendMessage chat_id (check_mark @ '' Mode switched to *'' @ title name @ ''*'')
                  (Some main_keyboard) \<noteq>
             sendMessage chat_id (check_mark @ '' Mode switched to *'' @ title name @ ''*'')
                  (Some (inline_keyboard name))"
    by (simp add: sendMessage_def main_keyboard_def inline_keyboard_def)
  moreover have "snd (webhook e update w) =
      w\<lparr>user_modes := (user_modes w)(k \<mapsto> name),
        conversations := (conversations w)(k := None),
        posted := posted w @
               [answerCallbackQuery cq_id (Some (''Mode set to '' @ name)),
                sendMessage chat_id (check_mark @ '' Mode switched to *'' @ title name @ ''*'')
                  (Some main_keyboard)]\<rparr>"
    unfolding webhook_registered_button [OF assms(1-8)]
    by (simp only: snd_two_posts [OF assms(9)]) simp
  ultimately show ?thesis by simp
qed

theorem mode_switch_sends_main_keyboard_witness:
  "posted (snd (webhook online
      (JObj [(''update_id'', JInt 1),
             (''callback_query'',
                JObj [(''id'', JStr ''q1''), (''data'', JStr ''mode:fitness''),
                      (''message'', JObj [(''chat'', JObj [(''id'', JInt 7)])])])])
      startup)) =
     [answerCallbackQuery (JStr ''q1'') (Some ''Mode set to fitness''),
      sendMessage (JInt 7) (check_mark @ '' Mode switched to *Fitness*'') (Some main_keyboard)]"
proof -
  let ?cq = "JObj [(''id'', JStr ''q1''), (''data'', JStr ''mode:fitness''),
                   (''message'', JObj [(''chat'', JObj [(''id'', JInt 7)])])]"
  let ?update = "JObj [(''update_id'', JInt 1), (''callback_query'', ?cq)]"
  have 1: "getitem ?update ''callback_query'' = Inr ?cq" by simp
  have 2: "getitem ?cq ''message'' = Inr (JObj [(''chat'', JObj [(''id'', JInt 7)])])" by simp
  have 3: "getitem (JObj [(''chat'', JObj [(''id'', JInt 7)])]) ''chat'' = Inr (JObj [(''id'', JInt 7)])"
    by simp
  have 4: "getitem (JObj [(''id'', JInt 7)]) ''id'' = Inr (JInt 7)" by simp
  have 5: "getitem ?cq ''data'' = Inr (JStr (''mode:'' @ ''fitness''))" by simp
  have 6: "getitem ?cq ''id'' = Inr (JStr ''q1'')" by simp
  have 7: "map_of modes ''fitness'' \<noteq> None" by (simp add: modes_def)
  have 8: "dict_key (JInt 7) = Inr (JInt 7)" by simp
  have 9: "telegram online (answerCallbackQuery (JStr ''q1'') (Some (''Mode set to '' @ ''fitness'')))
             = Response 200" by (simp add: online_def)
  from mode_switch_sends_main_keyboard [OF 1 2 3 4 5 6 7 8 9, of startup]
  show ?thesis
    by (simp add: startup_def title_def cased_def upper_char_def lower_char_def)
qed

text \<open>
  Claim C3 says that an update lacking expected fields never makes the handler raise. The
  message path reads its fields with \<open>.get\<close> and returns the acknowledgement when the
  chat id is missing; the callback path subscripts \<open>cq["message"]\<close> before looking at
  anything else, so a callback query without a \<open>message\<close> member (as the Bot API sends
  for a button under an inline-mode message) ends the handler with \<open>KeyError\<close>.
\<close>

theorem callback_without_message_raises:
  assumes "getitem update ''callback_query'' = Inr (JObj members)"
    and "map_of members ''message'' = None"
  shows "webhook e update w = (Inl KeyError, w)"
proof -
  from assms(1) obtain kvs where "update = JObj kvs"
    and "map_of kvs ''callback_query'' = Some (JObj members)"
    using getitem_Inr by blast
  with assms(2) show ?thesis
    by (simp add: webhook_def bind_def expr_def)
qed

theorem callback_without_message_raises_witness:
  "webhook online
     (JObj [(''update_id'', JInt 1),
            (''callback_query'', JObj [(''id'', JStr ''q1''), (''data'', JStr ''mode:fitness''),
                                       (''inline_message_id'', JStr ''m1'')])])
     startup = (Inl KeyError, startup)"
  by (rule callback_without_message_raises [where members = "[(''id'', JStr ''q1''),
        (''data'', JStr ''mode:fitness''), (''inline_message_id'', JStr ''m1'')]"]) simp_all

section \<open>Mode switch and reset\<close>

text \<open>
  Claim C5. A button press \<open>mode:<name>\<close> for a registered mode removes the chat's
  history and stores the new mode; a message whose trimmed, lower-cased text starts with
  \<open>/reset\<close> (and whose typing indicator came back) removes the chat's history and
  leaves \<open>user_modes\<close> as it was. In both cases the two dicts change at the key of this
  chat only, whatever happens to the replies sent afterwards.
\<close>

theorem mode_switch_and_reset_frame:
  assumes "getitem press ''callback_query'' = Inr cq"
    and "getitem cq ''message'' = Inr cq_message"
    and "getitem cq_message ''chat'' = Inr cq_chat"
    and "getitem cq_chat ''id'' = Inr chat_id"
    and "getitem cq ''data'' = Inr (JStr (''mode:'' @ name))"
    and "getitem cq ''id'' = Inr cq_id"
    and "map_of modes name \<noteq> None"
    and "dict_key chat_id = Inr k"
    and "contains ''callback_query'' reset = Inr False"
    and "get reset ''message'' JNull = Inr message"
    and "get message ''chat'' (JObj []) = Inr chat"
    and "get chat ''id'' JNull = Inr chat_id"
    and "chat_id \<noteq> JNull"
    and "get message ''text'' JNull = Inr (JStr text)"
    and "prefix ''/reset'' (lower (strip text))"
    and "telegram e (sendChatAction chat_id) = Response status"
  shows "conversations (snd (webhook e press w)) = (conversations w)(k := None)
         \<and> user_modes (snd (webhook e press w)) = (user_modes w)(k \<mapsto> name)
         \<and> conversations (snd (webhook e reset w)) = (conversations w)(k := None)
         \<and> user_modes (snd (webhook e reset w)) = user_modes w"
proof -
  have press: "conversations (snd (webhook e press w)) = (conversations w)(k := None)
         \<and> user_modes (snd (webhook e press w)) = (user_modes w)(k \<mapsto> name)"
    by (simp add: webhook_registered_button [OF assms(1-8)] two_posts_keep_state)
  have "webhook e reset w =
      text_message e chat_id text (w\<lparr>posted := posted w @ [sendChatAction chat_id]\<rparr>)"
    by (simp add: webhook_text [OF assms(9-14)] assms(16))
  then have "snd (webhook e reset w) =
      w\<lparr>posted := posted w @ [sendChatAction chat_id,
           sendMessage chat_id (''Memory cleared. Fresh start! '' @ sparkles) (Some main_keyboard)],
        conversations := (conversations w)(k := None)\<rparr>"
    by (simp add: text_message_reset [OF reset_not_start [OF assms(15)] assms(15) assms(8)]
        snd_post_then_ok)
  with press show ?thesis by simp
qed

theorem mode_switch_and_reset_frame_witness:
  "conversations (snd (webhook online
      (JObj [(''callback_query'',
                JObj [(''id'', JStr ''q1''), (''data'', JStr ''mode:restaurant''),
                      (''message'', JObj [(''chat'', JObj [(''id'', JInt 7)])])])])
      (snd (webhook online
         (JObj [(''message'', JObj [(''chat'', JObj [(''id'', JInt 7)]), (''text'', JStr ''hello'')])])
         startup)))) (JInt 7) = None
   \<and> user_modes (snd (webhook online
      (JObj [(''message'', JObj [(''chat'', JObj [(''id'', JInt 7)]), (''text'', JStr '' /Reset now'')])])
      (snd (webhook online
         (JObj [(''callback_query'',
                JObj [(''id'', JStr ''q1''), (''data'', JStr ''mode:restaurant''),
                      (''message'', JObj [(''chat'', JObj [(''id'', JInt 7)])])])])
         startup)))) (JInt 7) = Some ''restaurant''"
proof -
  let ?cq = "JObj [(''id'', JStr ''q1''), (''data'', JStr ''mode:restaurant''),
                   (''message'', JObj [(''chat'', JObj [(''id'', JInt 7)])])]"
  let ?press = "JObj [(''callback_query'', ?cq)]"
  let ?message = "JObj [(''chat'', JObj [(''id'', JInt 7)]), (''text'', JStr '' /Reset now'')]"
  let ?reset = "JObj [(''message'', ?message)]"
  let ?hello = "JObj [(''message'', JObj [(''chat'', JObj [(''id'', JInt 7)]), (''text'', JStr ''hello'')])]"
  have 1: "getitem ?press ''callback_query'' = Inr ?cq" by simp
  have 2: "getitem ?cq ''message'' = Inr (JObj [(''chat'', JObj [(''id'', JInt 7)])])" by simp
  have 3: "getitem (JObj [(''chat'', JObj [(''id'', JInt 7)])]) ''chat'' = Inr (JObj [(''id'', JInt 7)])"
    by simp
  have 4: "getitem (JObj [(''id'', JInt 7)]) ''id'' = Inr (JInt 7)" by simp
  have 5: "getitem ?cq ''data'' = Inr (JStr (''mode:'' @ ''restaurant''))" by simp
  have 6: "getitem ?cq ''id'' = Inr (JStr ''q1'')" by simp
  have 7: "map_of modes ''restaurant'' \<noteq> None" by (simp add: modes_def)
  have 8: "dict_key (JInt 7) = Inr (JInt 7)" by simp
  have 9: "contains ''callback_query'' ?reset = Inr False" by simp
  have 10: "get ?reset ''message'' JNull = Inr ?message" by simp
  have 11: "get ?message ''chat'' (JObj []) = Inr (JObj [(''id'', JInt 7)])" by simp
  have 12: "get (JObj [(''id'', JInt 7)]) ''id'' JNull = Inr (JInt 7)" by simp
  have 13: "JInt 7 \<noteq> JNull" by simp
  have 14: "get ?message ''text'' JNull = Inr (JStr '' /Reset now'')" by simp
  have 15: "prefix ''/reset'' (lower (strip '' /Reset now''))"
    by (simp add: strip_def rstrip_def leading_space_def whitespace_def lower_def lower_char_def)
  have 16: "telegram online (sendChatAction (JInt 7)) = Response 200" by (simp add: online_def)
  note frame = mode_switch_and_reset_frame [OF 1 2 3 4 5 6 7 8 9 10 11 12 13 14 15 16]
  show ?thesis
    using frame [of "snd (webhook online ?hello startup)"]
      frame [of "snd (webhook online ?press startup)"]
      frame [of startup]
    by (simp add: startup_def)
qed

section \<open>Button presses that are ignored\<close>

text \<open>
  Claim C6 says that a button press \<open>mode:<name>\<close> whose \<open><name>\<close> is not a
  registered mode changes nothing and sends nothing. The handler does not test
  \<open><name>\<close> but \<open>callback_data.split(":")[1]\<close>, the text between the first colon and
  the next: for \<open>mode:fitness:pro\<close> the name \<open>fitness:pro\<close> is not registered, yet
  the mode is set to \<open>fitness\<close>, the callback is acknowledged and a message is sent.
\<close>

theorem colon_in_name_counterexample:
  "map_of modes ''fitness:pro'' = None
   \<and> user_modes (snd (webhook online
        (JObj [(''callback_query'',
                JObj [(''id'', JStr ''q1''), (''data'', JStr ''mode:fitness:pro''),
                      (''message'', JObj [(''chat'', JObj [(''id'', JInt 7)])])])])
        startup)) (JInt 7) = Some ''fitness''
   \<and> posted (snd (webhook online
        (JObj [(''callback_query'',
                JObj [(''id'', JStr ''q1''), (''data'', JStr ''mode:fitness:pro''),
                      (''message'', JObj [(''chat'', JObj [(''id'', JInt 7)])])])])
        startup)) =
       [answerCallbackQuery (JStr ''q1'') (Some ''Mode set to fitness''),
        sendMessage (JInt 7) (check_mark @ '' Mode switched to *Fitness*'') (Some main_keyboard)]"
proof -
  let ?cq = "JObj [(''id'', JStr ''q1''), (''data'', JStr ''mode:fitness:pro''),
                   (''message'', JObj [(''chat'', JObj [(''id'', JInt 7)])])]"
  let ?update = "JObj [(''callback_query'', ?cq)]"
  have "webhook online ?update startup =
      mode_button online (JInt 7) (JStr ''mode:fitness:pro'') (JStr ''q1'') startup"
    by (simp add: webhook_def bind_def expr_def)
  moreover have choice: "second (split CHR '':'' ''mode:fitness:pro'') = Inr ''fitness''"
    by (simp add: second_def)
  moreover have registered: "map_of modes ''fitness'' \<noteq> None" by (simp add: modes_def)
  moreover have key: "dict_key (JInt 7) = Inr (JInt 7)" by simp
  moreover have "telegram online (answerCallbackQuery (JStr ''q1'') (Some (''Mode set to '' @ ''fitness'')))
      = Response 200" by (simp add: online_def)
  note snd_two_posts [OF this]
  ultimately have "snd (webhook online ?update startup) =
      startup\<lparr>user_modes := (user_modes startup)(JInt 7 \<mapsto> ''fitness''),
        conversations := (conversations startup)(JInt 7 := None),
        posted := posted startup @
          [answerCallbackQuery (JStr ''q1'') (Some (''Mode set to '' @ ''fitness'')),
           sendMessage (JInt 7) (check_mark @ '' Mode switched to *'' @ title ''fitness'' @ ''*'')
             (Some main_keyboard)]\<rparr>"
    by (simp only: mode_button_registered [OF choice registered key]) simp
  moreover have "map_of modes ''fitness:pro'' = None" by (simp add: modes_def)
  ultimately show ?thesis
    by (simp add: startup_def title_def cased_def upper_char_def lower_char_def)
qed

text \<open>
  Claim C6, amended. For a button press whose data is \<open>mode:<name>\<close> where the part of
  \<open><name>\<close> before its first colon (all of it when it has none) is not a registered
  mode, the handler returns the success acknowledgement and leaves the world as it was:
  histories and modes unchanged, nothing posted.
\<close>

theorem unregistered_button_ignored:
  assumes "getitem update ''callback_query'' = Inr cq"
    and "getitem cq ''message'' = Inr cq_message"
    and "getitem cq_message ''chat'' = Inr cq_chat"
    and "getitem cq_chat ''id'' = Inr chat_id"
    and "getitem cq ''data'' = Inr (JStr (''mode:'' @ name))"
    and "getitem cq ''id'' = Inr cq_id"
    and "map_of modes (takeWhile (\<lambda>c. c \<noteq> CHR '':'') name) = None"
  shows "webhook e update w = (Inr ok, w)"
proof -
  have "webhook e update w = mode_button e chat_id (JStr (''mode:'' @ name)) cq_id w"
    using webhook_callback [OF assms(1-6), of e w] by simp
  then show ?thesis
    by (simp only: mode_button_unregistered [OF second_split_mode assms(7)])
qed

theorem unregistered_button_ignored_witness:
  "webhook online
     (JObj [(''callback_query'',
             JObj [(''id'', JStr ''q1''), (''data'', JStr ''mode:pirate''),
                   (''message'', JObj [(''chat'', JObj [(''id'', JInt 7)])])])])
     startup = (Inr ok, startup)"
proof -
  let ?cq = "JObj [(''id'', JStr ''q1''), (''data'', JStr ''mode:pirate''),
                   (''message'', JObj [(''chat'', JObj [(''id'', JInt 7)])])]"
  let ?update = "JObj [(''callback_query'', ?cq)]"
  have 1: "getitem ?update ''callback_query'' = Inr ?cq" by simp
  have 2: "getitem ?cq ''message'' = Inr (JObj [(''chat'', JObj [(''id'', JInt 7)])])" by simp
  have 3: "getitem (JObj [(''chat'', JObj [(''id'', JInt 7)])]) ''chat'' = Inr (JObj [(''id'', JInt 7)])"
    by simp
  have 4: "getitem (JObj [(''id'', JInt 7)]) ''id'' = Inr (JInt 7)" by simp
  have 5: "getitem ?cq ''data'' = Inr (JStr (''mode:'' @ ''pirate''))" by simp
  have 6: "getitem ?cq ''id'' = Inr (JStr ''q1'')" by simp
  have 7: "map_of modes (takeWhile (\<lambda>c. c \<noteq> CHR '':'') ''pirate'') = None"
    by (simp add: modes_def)
  show ?thesis by (rule unregistered_button_ignored [OF 1 2 3 4 5 6 7])
qed

text \<open>
  Claim C10 says that an update with a callback query whose data does not start with
  \<open>mode:\<close>, and with no top-level \<open>message\<close> member, is acknowledged with nothing
  changed and nothing sent. Before it looks at the data, the callback path subscripts
  \<open>cq["message"]["chat"]["id"]\<close>: for such an update whose callback query has no
  \<open>message\<close> member the handler ends with \<open>KeyError\<close>. This is the unguarded
  subscript claim C3 reports; the message path reads its fields with \<open>.get\<close>.
\<close>

theorem other_callback_lacking_message_raises:
  assumes "getitem update ''callback_query'' = Inr (JObj members)"
    and "map_of members ''data'' = Some (JStr d)"
    and "\<not> prefix ''mode:'' d"
    and "contains ''message'' update = Inr False"
    and "map_of members ''message'' = None"
  shows "webhook e update w = (Inl KeyError, w)"
proof -
  from assms(1) obtain kvs where "update = JObj kvs"
    and "map_of kvs ''callback_query'' = Some (JObj members)"
    using getitem_Inr by blast
  with assms(5) show ?thesis
    by (simp add: webhook_def bind_def expr_def)
qed

theorem other_callback_lacking_message_raises_witness:
  "webhook online
     (JObj [(''update_id'', JInt 1),
            (''callback_query'', JObj [(''id'', JStr ''q1''), (''data'', JStr ''noop''),
                                       (''inline_message_id'', JStr ''m1'')])])
     startup = (Inl KeyError, startup)"
  by (rule other_callback_lacking_message_raises [where members = "[(''id'', JStr ''q1''),
        (''data'', JStr ''noop''), (''inline_message_id'', JStr ''m1'')]" and d = "''noop''"])
     simp_all

text \<open>
  When the callback query does carry the message's chat id, an id and a data string, the
  handler behaves as the claim says: it returns the success acknowledgement and leaves
  the world as it was.
\<close>

lemma other_callback_without_message_ignored:
  assumes "getitem update ''callback_query'' = Inr cq"
    and "getitem cq ''message'' = Inr cq_message"
    and "getitem cq_message ''chat'' = Inr cq_chat"
    and "getitem cq_chat ''id'' = Inr chat_id"
    and "getitem cq ''data'' = Inr (JStr d)"
    and "getitem cq ''id'' = Inr cq_id"
    and "\<not> prefix ''mode:'' d"
    and "contains ''message'' update = Inr False"
  shows "webhook e update w = (Inr ok, w)"
proof -
  from assms(1) obtain kvs where update: "update = JObj kvs"
    using getitem_Inr by blast
  with assms(8) have "get update ''message'' JNull = Inr JNull"
    by simp
  then have "normal_message e update w = (Inr ok, w)"
    by (simp add: normal_message_def bind_def expr_def returns_def)
  with assms(7) show ?thesis
    using webhook_callback [OF assms(1-6), of e w] by simp
qed

section \<open>The typing indicator\<close>

text \<open>
  Claim C2 says that a failure of the typing indicator's transport call is ignored and
  the update is handled to completion. \<open>send_typing\<close> awaits the HTTP client with no
  \<open>try\<close> around it, here or at its call: when the client raises, the exception leaves
  the handler, and the text message is neither answered nor stored.
\<close>

theorem typing_failure_counterexample:
  "webhook offline
     (JObj [(''update_id'', JInt 1),
            (''message'', JObj [(''chat'', JObj [(''id'', JInt 7)]), (''text'', JStr ''hello'')])])
     startup =
   (Inl TransportError, startup\<lparr>posted := [sendChatAction (JInt 7)]\<rparr>)"
  by (simp add: webhook_def normal_message_def bind_def expr_def send_typing_def post_def
      offline_def startup_def)

text \<open>
  Claim C2, amended. For every text message with a chat id the typing indicator is the
  first request posted. If the HTTP client raises on it, the exception propagates out of
  the handler, nothing else is posted and no history or mode changes. If the Bot API
  answers it, the response is ignored: whatever its status, the handler goes on with the
  commands and the conversational turn exactly as it does after any other answer, so two
  surroundings that differ only in how the typing indicator is answered give the same
  result and the same world. If every request of the update is answered, the handler
  returns the success acknowledgement.
\<close>

theorem typing_indicator_unguarded:
  assumes "contains ''callback_query'' update = Inr False"
    and "get update ''message'' JNull = Inr message"
    and "get message ''chat'' (JObj []) = Inr chat"
    and "get chat ''id'' JNull = Inr chat_id"
    and "chat_id \<noteq> JNull"
    and "get message ''text'' JNull = Inr (JStr text)"
    and "dict_key chat_id = Inr k"
  shows "prefix (posted w @ [sendChatAction chat_id]) (posted (snd (webhook e update w)))
         \<and> (telegram e (sendChatAction chat_id) = ConnectionFailed \<longrightarrow>
              webhook e update w =
                (Inl TransportError, w\<lparr>posted := posted w @ [sendChatAction chat_id]\<rparr>))
         \<and> (\<forall>status. telegram e (sendChatAction chat_id) = Response status \<longrightarrow>
              webhook e update w =
                text_message e chat_id text (w\<lparr>posted := posted w @ [sendChatAction chat_id]\<rparr>))
         \<and> (\<forall>e' status status'.
              telegram e (sendChatAction chat_id) = Response status
              \<and> telegram e' (sendChatAction chat_id) = Response status'
              \<and> (\<forall>path body. telegram e' (PostJson path body) = telegram e (PostJson path body))
              \<and> openai e' = openai e \<longrightarrow>
              webhook e' update w = webhook e update w)
         \<and> ((\<forall>r. telegram e r \<noteq> ConnectionFailed) \<longrightarrow> fst (webhook e update w) = Inr ok)"
proof (intro conjI impI allI)
  show "prefix (posted w @ [sendChatAction chat_id]) (posted (snd (webhook e update w)))"
    using text_message_posted [OF assms(7), of "w\<lparr>posted := posted w @ [sendChatAction chat_id]\<rparr>" e "text"]
    by (simp add: webhook_text [OF assms(1-6)] split: outcome.split)
next
  assume "telegram e (sendChatAction chat_id) = ConnectionFailed"
  then show "webhook e update w =
      (Inl TransportError, w\<lparr>posted := posted w @ [sendChatAction chat_id]\<rparr>)"
    by (simp add: webhook_text [OF assms(1-6)])
next
  fix status
  assume "telegram e (sendChatAction chat_id) = Response status"
  then show "webhook e update w =
      text_message e chat_id text (w\<lparr>posted := posted w @ [sendChatAction chat_id]\<rparr>)"
    by (simp add: webhook_text [OF assms(1-6)])
next
  fix e' :: env and status status' :: nat
  assume same: "telegram e (sendChatAction chat_id) = Response status
      \<and> telegram e' (sendChatAction chat_id) = Response status'
      \<and> (\<forall>path body. telegram e' (PostJson path body) = telegram e (PostJson path body))
      \<and> openai e' = openai e"
  then have "text_message e' chat_id text (w\<lparr>posted := posted w @ [sendChatAction chat_id]\<rparr>) =
      text_message e chat_id text (w\<lparr>posted := posted w @ [sendChatAction chat_id]\<rparr>)"
    by (intro text_message_same_replies) simp_all
  with same show "webhook e' update w = webhook e update w"
    by (simp add: webhook_text [OF assms(1-6)])
next
  assume answered: "\<forall>r. telegram e r \<noteq> ConnectionFailed"
  then obtain status where "telegram e (sendChatAction chat_id) = Response status"
    by (cases "telegram e (sendChatAction chat_id)") auto
  then show "fst (webhook e update w) = Inr ok"
    by (simp add: webhook_text [OF assms(1-6)] text_message_posts_respond [OF answered assms(7)])
qed

theorem typing_indicator_unguarded_witness:
  "webhook offline
     (JObj [(''message'', JObj [(''chat'', JObj [(''id'', JInt 7)]), (''text'', JStr ''hello'')])])
     startup =
     (Inl TransportError, startup\<lparr>posted := posted startup @ [sendChatAction (JInt 7)]\<rparr>)
   \<and> telegram typing_rejected (sendChatAction (JInt 7)) = Response 500
   \<and> fst (webhook typing_rejected
       (JObj [(''message'', JObj [(''chat'', JObj [(''id'', JInt 7)]), (''text'', JStr ''hello'')])])
       startup) = Inr ok
   \<and> webhook typing_rejected
       (JObj [(''message'', JObj [(''chat'', JObj [(''id'', JInt 7)]), (''text'', JStr ''hello'')])])
       startup =
     webhook online
       (JObj [(''message'', JObj [(''chat'', JObj [(''id'', JInt 7)]), (''text'', JStr ''hello'')])])
       startup
   \<and> snd (webhook typing_rejected
       (JObj [(''message'', JObj [(''chat'', JObj [(''id'', JInt 7)]), (''text'', JStr ''hello'')])])
       startup) =
     startup\<lparr>conversations :=
         (conversations startup)(JInt 7 \<mapsto> [entry ''user'' ''hello'', entry ''assistant'' ''Hello!'']),
       posted :=
         [sendChatAction (JInt 7),
          sendMessage (JInt 7)
            (speech @ '' *[General Mode]*'' @ newline @ newline @ ''Hello!'') (Some main_keyboard)]\<rparr>"
proof -
  let ?message = "JObj [(''chat'', JObj [(''id'', JInt 7)]), (''text'', JStr ''hello'')]"
  let ?update = "JObj [(''message'', ?message)]"
  have 1: "contains ''callback_query'' ?update = Inr False" by simp
  have 2: "get ?update ''message'' JNull = Inr ?message" by simp
  have 3: "get ?message ''chat'' (JObj []) = Inr (JObj [(''id'', JInt 7)])" by simp
  have 4: "get (JObj [(''id'', JInt 7)]) ''id'' JNull = Inr (JInt 7)" by simp
  have 5: "JInt 7 \<noteq> JNull" by simp
  have 6: "get ?message ''text'' JNull = Inr (JStr ''hello'')" by simp
  have 7: "dict_key (JInt 7) = Inr (JInt 7)" by simp
  note unguarded = typing_indicator_unguarded [OF 1 2 3 4 5 6 7]
  have down: "telegram offline (sendChatAction (JInt 7)) = ConnectionFailed"
    by (simp add: offline_def)
  have up: "\<forall>r. telegram typing_rejected r \<noteq> ConnectionFailed"
    by (simp add: typing_rejected_def split: request.split)
  have rejected: "telegram typing_rejected (sendChatAction (JInt 7)) = Response 500"
    by (simp add: typing_rejected_def sendChatAction_def)
  have accepted: "telegram online (sendChatAction (JInt 7)) = Response 200"
    by (simp add: online_def)
  have replies: "\<forall>path body. telegram typing_rejected (PostJson path body) =
      telegram online (PostJson path body)"
    by (simp add: typing_rejected_def online_def)
  have completions: "openai typing_rejected = openai online"
    by (simp add: typing_rejected_def online_def)
  have a: "webhook offline ?update startup =
      (Inl TransportError, startup\<lparr>posted := posted startup @ [sendChatAction (JInt 7)]\<rparr>)"
    using unguarded [of startup offline] down by blast
  have b: "fst (webhook typing_rejected ?update startup) = Inr ok"
    using unguarded [of startup typing_rejected] up by blast
  have c: "webhook typing_rejected ?update startup = webhook online ?update startup"
    using unguarded [of startup online] accepted rejected replies completions by blast
  have "webhook typing_rejected ?update startup =
      text_message typing_rejected (JInt 7) ''hello''
        (startup\<lparr>posted := posted startup @ [sendChatAction (JInt 7)]\<rparr>)"
    using unguarded [of startup typing_rejected] rejected by blast
  moreover have stripped: "lower (strip ''hello'') = ''hello''"
    by (simp add: strip_def rstrip_def leading_space_def whitespace_def lower_def lower_char_def)
  have "\<not> prefix ''/start'' (lower (strip ''hello''))" "\<not> prefix ''/reset'' (lower (strip ''hello''))"
    "lower (strip ''hello'') \<noteq> ''/mode''" "lower (strip ''hello'') \<noteq> gear @ '' mode''"
    by (simp_all add: stripped gear_def)
  note text_message_turn [OF this 7 refl]
  ultimately have d: "snd (webhook typing_rejected ?update startup) =
     startup\<lparr>conversations :=
         (conversations startup)(JInt 7 \<mapsto> [entry ''user'' ''hello'', entry ''assistant'' ''Hello!'']),
       posted :=
         [sendChatAction (JInt 7),
          sendMessage (JInt 7)
            (speech @ '' *[General Mode]*'' @ newline @ newline @ ''Hello!'') (Some main_keyboard)]\<rparr>"
    by (simp add: snd_post_then_ok typing_rejected_def startup_def current_mode_def history_def
        DEFAULT_MODE_def most_recent_def MAX_TURNS_def title_def cased_def upper_char_def
        lower_char_def)
  from a b c d rejected show ?thesis by blast
qed

section \<open>A failing completion service\<close>

text \<open>
  Claim C8. For a text message that is no command (and whose typing indicator came back),
  if the completion call raises, the one message sent to the user is the mode label
  followed by the fixed apology \<open>Sorry, I ran into an issue.\<close>, and nothing of the
  error; the chat's history becomes the old history with the user's text and that apology
  as the assistant's turn appended, cut down to its last \<open>2 * MAX_TURNS\<close> entries.
\<close>

theorem completion_failure_apology:
  assumes "contains ''callback_query'' update = Inr False"
    and "get update ''message'' JNull = Inr message"
    and "get message ''chat'' (JObj []) = Inr chat"
    and "get chat ''id'' JNull = Inr chat_id"
    and "chat_id \<noteq> JNull"
    and "get message ''text'' JNull = Inr (JStr text)"
    and "dict_key chat_id = Inr k"
    and "telegram e (sendChatAction chat_id) = Response status"
    and "\<not> prefix ''/start'' (lower (strip text))"
    and "\<not> prefix ''/reset'' (lower (strip text))"
    and "lower (strip text) \<noteq> ''/mode''"
    and "lower (strip text) \<noteq> gear @ '' mode''"
    and "openai e (entry ''system'' (system_prompt (current_mode w k)) #
           most_recent (MAX_TURNS * 2) (history w k @ [entry ''user'' text])) = OpenAIError"
  shows "posted (snd (webhook e update w)) =
           posted w @
             [sendChatAction chat_id,
              sendMessage chat_id
                (speech @ '' *['' @ title (current_mode w k) @ '' Mode]*'' @ newline @ newline @
                 ''Sorry, I ran into an issue.'')
                (Some main_keyboard)]
         \<and> conversations (snd (webhook e update w)) =
             (conversations w)(k \<mapsto>
                most_recent (MAX_TURNS * 2)
                  (history w k @
                   [entry ''user'' text, entry ''assistant'' ''Sorry, I ran into an issue.'']))
         \<and> user_modes (snd (webhook e update w)) = user_modes w"
proof -
  have "webhook e update w =
      text_message e chat_id text (w\<lparr>posted := posted w @ [sendChatAction chat_id]\<rparr>)"
    by (simp add: webhook_text [OF assms(1-6)] assms(8))
  moreover have "openai e (entry ''system''
        (system_prompt (current_mode (w\<lparr>posted := posted w @ [sendChatAction chat_id]\<rparr>) k)) #
      most_recent (MAX_TURNS * 2)
        (history (w\<lparr>posted := posted w @ [sendChatAction chat_id]\<rparr>) k @ [entry ''user'' text]))
      = OpenAIError"
    using assms(13) by (simp add: current_mode_def history_def)
  ultimately show ?thesis
    by (simp add: text_message_turn [OF assms(9-12) assms(7) refl] snd_post_then_ok
        apology_def current_mode_def history_def)
qed

theorem completion_failure_apology_witness:
  "posted (snd (webhook completion_down
      (JObj [(''message'', JObj [(''chat'', JObj [(''id'', JInt 7)]), (''text'', JStr ''hello'')])])
      startup)) =
     [sendChatAction (JInt 7),
      sendMessage (JInt 7)
        (speech @ '' *[General Mode]*'' @ newline @ newline @ ''Sorry, I ran into an issue.'')
        (Some main_keyboard)]
   \<and> conversations (snd (webhook completion_down
      (JObj [(''message'', JObj [(''chat'', JObj [(''id'', JInt 7)]), (''text'', JStr ''hello'')])])
      startup)) (JInt 7) =
     Some [entry ''user'' ''hello'', entry ''assistant'' ''Sorry, I ran into an issue.'']"
proof -
  let ?message = "JObj [(''chat'', JObj [(''id'', JInt 7)]), (''text'', JStr ''hello'')]"
  let ?update = "JObj [(''message'', ?message)]"
  have 1: "contains ''callback_query'' ?update = Inr False" by simp
  have 2: "get ?update ''message'' JNull = Inr ?message" by simp
  have 3: "get ?message ''chat'' (JObj []) = Inr (JObj [(''id'', JInt 7)])" by simp
  have 4: "get (JObj [(''id'', JInt 7)]) ''id'' JNull = Inr (JInt 7)" by simp
  have 5: "JInt 7 \<noteq> JNull" by simp
  have 6: "get ?message ''text'' JNull = Inr (JStr ''hello'')" by simp
  have 7: "dict_key (JInt 7) = Inr (JInt 7)" by simp
  have 8: "telegram completion_down (sendChatAction (JInt 7)) = Response 200"
    by (simp add: completion_down_def)
  have stripped: "lower (strip ''hello'') = ''hello''"
    by (simp add: strip_def rstrip_def leading_space_def whitespace_def lower_def lower_char_def)
  have 9: "\<not> prefix ''/start'' (lower (strip ''hello''))" by (simp add: stripped)
  have 10: "\<not> prefix ''/reset'' (lower (strip ''hello''))" by (simp add: stripped)
  have 11: "lower (strip ''hello'') \<noteq> ''/mode''" by (simp add: stripped)
  have 12: "lower (strip ''hello'') \<noteq> gear @ '' mode''" by (simp add: stripped gear_def)
  have 13: "openai completion_down (entry ''system'' (system_prompt (current_mode startup (JInt 7))) #
           most_recent (MAX_TURNS * 2) (history startup (JInt 7) @ [entry ''user'' ''hello''])) = OpenAIError"
    by (simp add: completion_down_def)
  from completion_failure_apology [OF 1 2 3 4 5 6 7 8 9 10 11 12 13]
  show ?thesis
    by (simp add: startup_def current_mode_def history_def DEFAULT_MODE_def most_recent_def MAX_TURNS_def
        title_def cased_def upper_char_def lower_char_def)
qed

section \<open>Commands\<close>

text \<open>
  Claim C9. For a text message (whose typing indicator came back): if the trimmed,
  lower-cased text starts with \<open>/start\<close>, as \<open>/starting\<close> does, the handler does what
  \<open>/start\<close> does (history removed, mode set to general, greeting sent); if it starts with
  \<open>/reset\<close> it does what \<open>/reset\<close> does (history removed, confirmation sent). If it
  starts with neither, the mode-selection keyboard is the handler's whole effect exactly
  when the trimmed, lower-cased text equals \<open>/mode\<close> or the Mode button's label; a longer
  text such as \<open>/modes\<close> is not taken for the command.
\<close>

theorem command_recognition:
  assumes "contains ''callback_query'' update = Inr False"
    and "get update ''message'' JNull = Inr message"
    and "get message ''chat'' (JObj []) = Inr chat"
    and "get chat ''id'' JNull = Inr chat_id"
    and "chat_id \<noteq> JNull"
    and "get message ''text'' JNull = Inr (JStr text)"
    and "dict_key chat_id = Inr k"
    and "telegram e (sendChatAction chat_id) = Response status"
  shows "(prefix ''/start'' (lower (strip text)) \<longrightarrow>
            snd (webhook e update w) =
              w\<lparr>conversations := (conversations w)(k := None),
                user_modes := (user_modes w)(k \<mapsto> ''general''),
                posted := posted w @
                  [sendChatAction chat_id, sendMessage chat_id greeting (Some main_keyboard)]\<rparr>)
         \<and> (prefix ''/reset'' (lower (strip text)) \<longrightarrow>
            snd (webhook e update w) =
              w\<lparr>conversations := (conversations w)(k := None),
                posted := posted w @
                  [sendChatAction chat_id,
                   sendMessage chat_id (''Memory cleared. Fresh start! '' @ sparkles)
                     (Some main_keyboard)]\<rparr>)
         \<and> (\<not> prefix ''/start'' (lower (strip text)) \<and> \<not> prefix ''/reset'' (lower (strip text)) \<longrightarrow>
            (snd (webhook e update w) =
               w\<lparr>posted := posted w @
                  [sendChatAction chat_id,
                   sendMessage chat_id (pointing @ '' Choose a mode:'')
                     (Some (inline_keyboard (current_mode w k)))]\<rparr>)
            = (lower (strip text) = ''/mode'' \<or> lower (strip text) = gear @ '' mode''))"
proof (intro conjI impI)
  let ?w = "w\<lparr>posted := posted w @ [sendChatAction chat_id]\<rparr>"
  have typed: "webhook e update w = text_message e chat_id text ?w"
    by (simp add: webhook_text [OF assms(1-6)] assms(8))
  {
    assume start: "prefix ''/start'' (lower (strip text))"
    show "snd (webhook e update w) =
              w\<lparr>conversations := (conversations w)(k := None),
                user_modes := (user_modes w)(k \<mapsto> ''general''),
                posted := posted w @
                  [sendChatAction chat_id, sendMessage chat_id greeting (Some main_keyboard)]\<rparr>"
      by (simp add: typed text_message_start [OF start assms(7)] snd_post_then_ok DEFAULT_MODE_def)
  next
    assume reset: "prefix ''/reset'' (lower (strip text))"
    show "snd (webhook e update w) =
              w\<lparr>conversations := (conversations w)(k := None),
                posted := posted w @
                  [sendChatAction chat_id,
                   sendMessage chat_id (''Memory cleared. Fresh start! '' @ sparkles)
                     (Some main_keyboard)]\<rparr>"
      by (simp add: typed text_message_reset [OF reset_not_start [OF reset] reset assms(7)]
          snd_post_then_ok)
  next
    assume "\<not> prefix ''/start'' (lower (strip text)) \<and> \<not> prefix ''/reset'' (lower (strip text))"
    then have no_start: "\<not> prefix ''/start'' (lower (strip text))"
      and no_reset: "\<not> prefix ''/reset'' (lower (strip text))" by simp_all
    show "(snd (webhook e update w) =
               w\<lparr>posted := posted w @
                  [sendChatAction chat_id,
                   sendMessage chat_id (pointing @ '' Choose a mode:'')
                     (Some (inline_keyboard (current_mode w k)))]\<rparr>)
            = (lower (strip text) = ''/mode'' \<or> lower (strip text) = gear @ '' mode'')"
    proof (cases "lower (strip text) = ''/mode'' \<or> lower (strip text) = gear @ '' mode''")
      case True
      then show ?thesis
        by (simp add: typed text_message_mode [OF no_start no_reset True assms(7)]
            snd_post_then_ok current_mode_def)
    next
      case False
      then have no_mode: "lower (strip text) \<noteq> ''/mode''"
        and no_label: "lower (strip text) \<noteq> gear @ '' mode''" by simp_all
      have "posted (snd (webhook e update w)) \<noteq>
          posted w @ [sendChatAction chat_id,
                   sendMessage chat_id (pointing @ '' Choose a mode:'')
                     (Some (inline_keyboard (current_mode w k)))]"
        using choose_not_reply [of chat_id "Some (inline_keyboard (current_mode w k))", THEN not_sym]
        by (simp add: typed text_message_turn [OF no_start no_reset no_mode no_label assms(7) refl]
            snd_post_then_ok)
      then have "snd (webhook e update w) \<noteq>
               w\<lparr>posted := posted w @
                  [sendChatAction chat_id,
                   sendMessage chat_id (pointing @ '' Choose a mode:'')
                     (Some (inline_keyboard (current_mode w k)))]\<rparr>"
        by auto
      with False show ?thesis by simp
    qed
  }
qed


theorem command_recognition_witness:
  "user_modes (snd (webhook online
      (JObj [(''message'', JObj [(''chat'', JObj [(''id'', JInt 7)]), (''text'', JStr ''/starting'')])])
      startup)) (JInt 7) = Some ''general''
   \<and> posted (snd (webhook online
      (JObj [(''message'', JObj [(''chat'', JObj [(''id'', JInt 7)]), (''text'', JStr '' /RESETTING'')])])
      startup)) =
       [sendChatAction (JInt 7),
        sendMessage (JInt 7) (''Memory cleared. Fresh start! '' @ sparkles) (Some main_keyboard)]
   \<and> posted (snd (webhook online
      (JObj [(''message'', JObj [(''chat'', JObj [(''id'', JInt 7)]), (''text'', JStr '' /Mode '')])])
      startup)) =
       [sendChatAction (JInt 7),
        sendMessage (JInt 7) (pointing @ '' Choose a mode:'') (Some (inline_keyboard ''general''))]
   \<and> snd (webhook online
      (JObj [(''message'', JObj [(''chat'', JObj [(''id'', JInt 7)]), (''text'', JStr ''/modes'')])])
      startup) \<noteq>
       startup\<lparr>posted := posted startup @
         [sendChatAction (JInt 7),
          sendMessage (JInt 7) (pointing @ '' Choose a mode:'')
            (Some (inline_keyboard (current_mode startup (JInt 7))))]\<rparr>"
proof -
  let ?message = "\<lambda>t. JObj [(''chat'', JObj [(''id'', JInt 7)]), (''text'', JStr t)]"
  let ?update = "\<lambda>t. JObj [(''message'', ?message t)]"
  have 1: "contains ''callback_query'' (?update t) = Inr False" for t by simp
  have 2: "get (?update t) ''message'' JNull = Inr (?message t)" for t by simp
  have 3: "get (?message t) ''chat'' (JObj []) = Inr (JObj [(''id'', JInt 7)])" for t by simp
  have 4: "get (JObj [(''id'', JInt 7)]) ''id'' JNull = Inr (JInt 7)" by simp
  have 5: "JInt 7 \<noteq> JNull" by simp
  have 6: "get (?message t) ''text'' JNull = Inr (JStr t)" for t by simp
  have 7: "dict_key (JInt 7) = Inr (JInt 7)" by simp
  have 8: "telegram online (sendChatAction (JInt 7)) = Response 200" by (simp add: online_def)
  note recognised = command_recognition [OF 1 2 3 4 5 6 7 8, of _ startup]
  have starting: "lower (strip ''/starting'') = ''/starting''"
    by (simp add: strip_def rstrip_def leading_space_def whitespace_def lower_def lower_char_def)
  have resetting: "lower (strip '' /RESETTING'') = ''/resetting''"
    by (simp add: strip_def rstrip_def leading_space_def whitespace_def lower_def lower_char_def)
  have mode: "lower (strip '' /Mode '') = ''/mode''"
    by (simp add: strip_def rstrip_def leading_space_def whitespace_def lower_def lower_char_def)
  have modes: "lower (strip ''/modes'') = ''/modes''"
    by (simp add: strip_def rstrip_def leading_space_def whitespace_def lower_def lower_char_def)
  have a: "user_modes (snd (webhook online (?update ''/starting'') startup)) (JInt 7) = Some ''general''"
    using recognised [of "''/starting''"] by (simp add: starting)
  have b: "posted (snd (webhook online (?update '' /RESETTING'') startup)) =
       [sendChatAction (JInt 7),
        sendMessage (JInt 7) (''Memory cleared. Fresh start! '' @ sparkles) (Some main_keyboard)]"
    using recognised [of "'' /RESETTING''"] by (simp add: resetting startup_def)
  have c: "posted (snd (webhook online (?update '' /Mode '') startup)) =
       [sendChatAction (JInt 7),
        sendMessage (JInt 7) (pointing @ '' Choose a mode:'') (Some (inline_keyboard ''general''))]"
    using recognised [of "'' /Mode ''"]
    by (simp add: mode startup_def current_mode_def DEFAULT_MODE_def)
  have d: "snd (webhook online (?update ''/modes'') startup) \<noteq>
       startup\<lparr>posted := posted startup @
         [sendChatAction (JInt 7),
          sendMessage (JInt 7) (pointing @ '' Choose a mode:'')
            (Some (inline_keyboard (current_mode startup (JInt 7))))]\<rparr>"
    using recognised [of "''/modes''"] by (simp add: modes gear_def)
  from a b c d show ?thesis by blast
qed

end
